theory Spec2Isabelle
  imports Main "HOL-Library.Sublist" "HOL-Library.Finite_Map" "HOL-Library.AList"
begin

section \<open>Strings\<close>

text \<open>
  Go strings are byte sequences; they are modelled as \<open>string\<close> (a list of 8-bit
  characters). \<open>strings.ToLower\<close> is modelled on ASCII, where it adds
  \<open>'a' - 'A' = 32\<close> to the bytes \<open>'A'..'Z'\<close> (65 to 90), which sets bit 5 of the
  byte; every other byte is left as it is.
\<close>

definition ToLower_char :: "char \<Rightarrow> char" where
  "ToLower_char c =
     (if (65::nat) \<le> of_char c \<and> of_char c \<le> (90::nat)
      then (case c of Char b0 b1 b2 b3 b4 b5 b6 b7 \<Rightarrow> Char b0 b1 b2 b3 b4 True b6 b7)
      else c)"

definition ToLower :: "string \<Rightarrow> string" where
  "ToLower s = map ToLower_char s"

text \<open>\<open>strings.HasPrefix\<close> and \<open>strings.Contains\<close>.\<close>

fun HasPrefix :: "string \<Rightarrow> string \<Rightarrow> bool" where
  "HasPrefix s [] = True"
| "HasPrefix [] (p # pre) = False"
| "HasPrefix (c # s) (p # pre) = (c = p \<and> HasPrefix s pre)"

fun Contains :: "string \<Rightarrow> string \<Rightarrow> bool" where
  "Contains [] substr = (substr = [])"
| "Contains (c # s) substr = (HasPrefix (c # s) substr \<or> Contains s substr)"

text \<open>Indexing a Go \<open>map[string]bool\<close>: a missing key reads as \<open>false\<close>.\<close>

definition go_index :: "(string \<rightharpoonup> bool) \<Rightarrow> string \<Rightarrow> bool" where
  "go_index m k = (case m k of Some b \<Rightarrow> b | None \<Rightarrow> False)"

section \<open>Data model (package common)\<close>

type_synonym WorkloadType = string

definition WorkloadTypeContainer :: WorkloadType where
  "WorkloadTypeContainer = ''container''"

definition WorkloadTypeVM :: WorkloadType where
  "WorkloadTypeVM = ''vm''"

text \<open>
  A \<open>resource.Quantity\<close> is identified with its canonical string; the zero quantity
  (what indexing a \<open>ResourceList\<close> at a missing key gives) prints as \<open>0\<close>.
\<close>

type_synonym Quantity = string

definition zeroQuantity :: Quantity where
  "zeroQuantity = ''0''"

definition IsZero :: "Quantity \<Rightarrow> bool" where
  "IsZero q = (q = zeroQuantity)"

record ResourceRequirements =
  Limits :: "string \<rightharpoonup> Quantity"
  Requests :: "string \<rightharpoonup> Quantity"

definition index_ResourceList :: "(string \<rightharpoonup> Quantity) \<Rightarrow> string \<Rightarrow> Quantity" where
  "index_ResourceList m k = (case m k of Some q \<Rightarrow> q | None \<Rightarrow> zeroQuantity)"

record NetworkEndpoint =
  ep_Node :: string
  ep_Interface :: string
  ep_Address :: string

record NetworkInterface =
  if_Name :: string
  if_Type :: string
  if_Endpoint :: "NetworkEndpoint option"

text \<open>The field \<open>Image\<close> is named \<open>NodeImage\<close>: \<open>Image\<close> is a constant of HOL.\<close>

record NodeConfig =
  Name :: string
  NodeImage :: string
  Kind :: string
  Labels :: "string \<rightharpoonup> string"
  Annotations :: "string \<rightharpoonup> string"
  Environment :: "string \<rightharpoonup> string"
  Interfaces :: "NetworkInterface list"
  Resources :: "ResourceRequirements option"
  StartupConfig :: string
  Files :: "string \<rightharpoonup> string"

section \<open>Workload classifier (package detector)\<close>

text \<open>
  \<open>vmImageMap\<close> is a Go map that \<open>classifyByImage\<close> walks with \<open>range\<close>, in an
  order the language leaves open. The field holds the entries of the map in the order
  in which the walk visits them; the theorems below are stated for every such list.
  The two force registries are Go maps from node name to \<open>bool\<close>.
\<close>

record WorkloadClassifier =
  vmImageMap :: "(string \<times> bool) list"
  forceVM :: "string \<rightharpoonup> bool"
  forceContainer :: "string \<rightharpoonup> bool"

definition NewWorkloadClassifier :: WorkloadClassifier where
  "NewWorkloadClassifier =
     \<lparr> vmImageMap =
         [ (''cisco/csr1000v'', True), (''cisco/iosv'', True), (''cisco/iosxr'', True),
           (''cisco/nxos'', True),
           (''arista/veos'', True), (''arista/ceos'', False),
           (''juniper/vmx'', True), (''juniper/vsrx'', True), (''juniper/vqfx'', True),
           (''vyos/vyos'', True), (''pfsense/pfsense'', True), (''opnsense/opnsense'', True),
           (''mikrotik/routeros'', True), (''mikrotik/chr'', True),
           (''fortinet/fortigate'', True),
           (''nokia/srl'', False), (''nokia/srlinux'', False),
           (''sonic/sonic'', False), (''azure/sonic'', False),
           (''frr/frr'', False), (''quagga/quagga'', False),
           (''alpine'', False), (''ubuntu'', False), (''centos'', False), (''debian'', False) ],
       forceVM = Map.empty,
       forceContainer = Map.empty \<rparr>"

definition vmIndicators :: "string list" where
  "vmIndicators =
     [ ''vmx'', ''vsrx'', ''vqfx'', ''veos'', ''csr1000v'', ''iosv'', ''iosxr'',
       ''vyos'', ''pfsense'', ''opnsense'', ''routeros'', ''chr'', ''fortigate'',
       ''vm-'', ''-vm'', ''virtual'', ''qemu'', ''kvm'' ]"

definition containerIndicators :: "string list" where
  "containerIndicators =
     [ ''ceos'', ''srl'', ''srlinux'', ''sonic'', ''frr'', ''quagga'',
       ''alpine'', ''ubuntu'', ''centos'', ''debian'', ''busybox'',
       ''container'', ''docker'', ''k8s'' ]"

text \<open>
  The loop over \<open>vmImageMap\<close> returns at the first entry whose lower-cased pattern
  occurs in the lower-cased image; \<open>find\<close> is that loop. The empty string is the
  "no verdict" value the three \<open>classifyBy...\<close> functions return.
\<close>

definition classifyByImage :: "WorkloadClassifier \<Rightarrow> string \<Rightarrow> WorkloadType" where
  "classifyByImage c img =
     (let imageLower = ToLower img in
      case find (\<lambda>(imagePattern, isVM). Contains imageLower (ToLower imagePattern))
                (vmImageMap c) of
        Some (imagePattern, isVM) \<Rightarrow>
          (if isVM then WorkloadTypeVM else WorkloadTypeContainer)
      | None \<Rightarrow>
          (if list_ex (\<lambda>indicator. Contains imageLower indicator) vmIndicators
           then WorkloadTypeVM
           else if list_ex (\<lambda>indicator. Contains imageLower indicator) containerIndicators
           then WorkloadTypeContainer
           else ''''))"

definition vmKinds :: "string \<rightharpoonup> bool" where
  "vmKinds = map_of
     [ (''csr1000v'', True), (''iosv'', True), (''iosxr'', True), (''nxos'', True),
       (''veos'', True), (''vmx'', True), (''vsrx'', True), (''vqfx'', True),
       (''vyos'', True), (''pfsense'', True), (''opnsense'', True), (''routeros'', True),
       (''chr'', True), (''fortigate'', True), (''fortios'', True) ]"

definition containerKinds :: "string \<rightharpoonup> bool" where
  "containerKinds = map_of
     [ (''ceos'', True), (''srl'', True), (''srlinux'', True), (''sonic'', True),
       (''frr'', True), (''quagga'', True), (''linux'', True), (''host'', True),
       (''bridge'', True), (''ovs'', True) ]"

definition classifyByKind :: "string \<Rightarrow> WorkloadType" where
  "classifyByKind kind =
     (let kindLower = ToLower kind in
      if go_index vmKinds kindLower then WorkloadTypeVM
      else if go_index containerKinds kindLower then WorkloadTypeContainer
      else '''')"

definition vmImageFormats :: "string list" where
  "vmImageFormats = [ ''qcow2'', ''vmdk'', ''iso'', ''ova'', ''vhd'' ]"

definition vmRegistries :: "string list" where
  "vmRegistries =
     [ ''registry.hub.docker.com/virtualization/'', ''quay.io/kubevirt/'',
       ''registry.redhat.io/ubi8/'' ]"

definition containerRegistries :: "string list" where
  "containerRegistries =
     [ ''docker.io/'', ''ghcr.io/'', ''quay.io/'', ''gcr.io/'', ''registry.k8s.io/'' ]"

definition classifyByImageCharacteristics :: "string \<Rightarrow> WorkloadType" where
  "classifyByImageCharacteristics img =
     (let imageLower = ToLower img in
      if list_ex (\<lambda>ext. Contains imageLower ext) vmImageFormats then WorkloadTypeVM
      else if list_ex (\<lambda>registry. HasPrefix imageLower registry) vmRegistries
      then WorkloadTypeVM
      else if list_ex (\<lambda>registry. HasPrefix imageLower registry) containerRegistries
      then WorkloadTypeContainer
      else '''')"

text \<open>
  \<open>DetermineWorkloadType\<close> after its \<open>EXECUTION_MODE\<close> switch: the force
  registries, then the three classifiers, then the default.
\<close>

definition classifyWithoutDirective :: "WorkloadClassifier \<Rightarrow> NodeConfig \<Rightarrow> WorkloadType" where
  "classifyWithoutDirective c config =
     (if go_index (forceVM c) (Name config) then WorkloadTypeVM
      else if go_index (forceContainer c) (Name config) then WorkloadTypeContainer
      else if classifyByImage c (NodeImage config) \<noteq> '''' then classifyByImage c (NodeImage config)
      else if classifyByKind (Kind config) \<noteq> '''' then classifyByKind (Kind config)
      else if classifyByImageCharacteristics (NodeImage config) \<noteq> ''''
      then classifyByImageCharacteristics (NodeImage config)
      else WorkloadTypeContainer)"

text \<open>
  The switch on the lower-cased directive has no default branch: a value that is
  none of the four falls out of the switch and classification goes on.
\<close>

definition DetermineWorkloadType :: "WorkloadClassifier \<Rightarrow> NodeConfig \<Rightarrow> WorkloadType" where
  "DetermineWorkloadType c config =
     (case Environment config ''EXECUTION_MODE'' of
        Some execMode \<Rightarrow>
          (if ToLower execMode = ''vm'' \<or> ToLower execMode = ''virtual-machine''
           then WorkloadTypeVM
           else if ToLower execMode = ''container'' \<or> ToLower execMode = ''pod''
           then WorkloadTypeContainer
           else classifyWithoutDirective c config)
      | None \<Rightarrow> classifyWithoutDirective c config)"

definition ForceVM :: "WorkloadClassifier \<Rightarrow> string \<Rightarrow> WorkloadClassifier" where
  "ForceVM c nodeName =
     c\<lparr> forceVM := (forceVM c)(nodeName \<mapsto> True),
        forceContainer := (forceContainer c)(nodeName := None) \<rparr>"

definition ForceContainer :: "WorkloadClassifier \<Rightarrow> string \<Rightarrow> WorkloadClassifier" where
  "ForceContainer c nodeName =
     c\<lparr> forceContainer := (forceContainer c)(nodeName \<mapsto> True),
        forceVM := (forceVM c)(nodeName := None) \<rparr>"

text \<open>A sequence of calls to the two force operations, applied from left to right.\<close>

datatype force_call = CallForceVM string | CallForceContainer string

fun force_target :: "force_call \<Rightarrow> string" where
  "force_target (CallForceVM n) = n"
| "force_target (CallForceContainer n) = n"

fun force_verdict :: "force_call \<Rightarrow> WorkloadType" where
  "force_verdict (CallForceVM n) = WorkloadTypeVM"
| "force_verdict (CallForceContainer n) = WorkloadTypeContainer"

fun apply_force_call :: "WorkloadClassifier \<Rightarrow> force_call \<Rightarrow> WorkloadClassifier" where
  "apply_force_call c (CallForceVM n) = ForceVM c n"
| "apply_force_call c (CallForceContainer n) = ForceContainer c n"

definition apply_force_calls :: "WorkloadClassifier \<Rightarrow> force_call list \<Rightarrow> WorkloadClassifier" where
  "apply_force_calls c calls = foldl apply_force_call c calls"

section \<open>Kubernetes objects\<close>

text \<open>
  The objects of \<open>k8s.io/api\<close> are modelled by the fields this program writes or
  reads. A field that a composite literal of the source leaves out has Go's zero value:
  the empty string, the empty map or list, \<open>None\<close> for a nil pointer. Maps and slices
  are modelled by their content. Record fields carry a short prefix where several Go
  types use the same field name.
\<close>

record EnvVar =
  ev_Name :: string
  ev_Value :: string

record ContainerPort =
  cp_Name :: string
  cp_ContainerPort :: int
  cp_Protocol :: string

record Capabilities =
  cap_Add :: "string list"

record SecurityContext =
  sc_Capabilities :: "Capabilities option"

record Container =
  ct_Name :: string
  ct_Image :: string
  ct_Env :: "EnvVar list"
  ct_Ports :: "ContainerPort list"
  ct_SecurityContext :: "SecurityContext option"
  ct_ImagePullPolicy :: string
  ct_Resources :: ResourceRequirements

record ObjectMeta =
  om_Name :: string
  om_Namespace :: string
  om_Labels :: "string \<rightharpoonup> string"
  om_Annotations :: "string \<rightharpoonup> string"
  om_ResourceVersion :: string

record PodSpec =
  ps_Containers :: "Container list"
  ps_RestartPolicy :: string

record PodTemplateSpec =
  pt_ObjectMeta :: ObjectMeta
  pt_Spec :: PodSpec

record LabelSelector =
  MatchLabels :: "string \<rightharpoonup> string"

record DeploymentStrategy =
  st_Type :: string

record DeploymentSpec =
  ds_Replicas :: "int option"
  ds_Selector :: "LabelSelector option"
  ds_Template :: PodTemplateSpec
  ds_Strategy :: DeploymentStrategy

record Deployment =
  d_ObjectMeta :: ObjectMeta
  d_Spec :: DeploymentSpec

record ServicePort =
  sp_Name :: string
  sp_Port :: int
  sp_Protocol :: string

record ServiceSpec =
  ss_Ports :: "ServicePort list"
  ss_Selector :: "string \<rightharpoonup> string"
  ss_ClusterIP :: string
  ss_Type :: string

record Service =
  s_ObjectMeta :: ObjectMeta
  s_Spec :: ServiceSpec

record ConfigMap =
  cm_ObjectMeta :: ObjectMeta
  cm_Data :: "string \<rightharpoonup> string"

text \<open>
  The content of an \<open>unstructured.Unstructured\<close>: a \<open>map[string]interface{}\<close> is
  a finite map, a \<open>[]interface{}\<close> (or \<open>[]map[string]interface{}\<close>) is a list, and
  a \<open>map[string]string\<close> stored as a value is kept as a map. Equality of these
  values is what \<open>reflect.DeepEqual\<close> decides on them.
\<close>

datatype go_value =
    GString string
  | GBool bool
  | GStringMap "string \<rightharpoonup> string"
  | GMap "(string, go_value) fmap"
  | GList "go_value list"

text \<open>A composite literal \<open>map[string]interface{}{...}\<close>.\<close>

definition GObject :: "(string \<times> go_value) list \<Rightarrow> go_value" where
  "GObject entries = GMap (fmap_of_list entries)"

record Unstructured =
  u_Object :: "(string, go_value) fmap"

text \<open>
  The \<open>interface{}\<close> payload of a rendered resource, by dynamic type; \<open>ObjOther\<close>
  stands for a value of any other type.
\<close>

datatype k8s_object =
    ObjDeployment Deployment
  | ObjService Service
  | ObjConfigMap ConfigMap
  | ObjUnstructured Unstructured
  | ObjOther

definition emptyObjectMeta :: ObjectMeta where
  "emptyObjectMeta =
     \<lparr> om_Name = '''', om_Namespace = '''', om_Labels = Map.empty,
       om_Annotations = Map.empty, om_ResourceVersion = '''' \<rparr>"

definition emptyResourceRequirements :: ResourceRequirements where
  "emptyResourceRequirements = \<lparr> Limits = Map.empty, Requests = Map.empty \<rparr>"

definition ProtocolTCP :: string where "ProtocolTCP = ''TCP''"
definition PullIfNotPresent :: string where "PullIfNotPresent = ''IfNotPresent''"
definition RestartPolicyAlways :: string where "RestartPolicyAlways = ''Always''"
definition ServiceTypeClusterIP :: string where "ServiceTypeClusterIP = ''ClusterIP''"
definition RecreateDeploymentStrategyType :: string where
  "RecreateDeploymentStrategyType = ''Recreate''"
definition ResourceMemory :: string where "ResourceMemory = ''memory''"
definition ResourceCPU :: string where "ResourceCPU = ''cpu''"

section \<open>Constants (package constants)\<close>

definition LabelTopology :: string where "LabelTopology = ''clabernetes/topology''"
definition LabelTopologyNode :: string where "LabelTopologyNode = ''clabernetes/topologyNode''"
definition LabelExecutionMode :: string where "LabelExecutionMode = ''clabernetes/executionMode''"
definition LabelWorkloadType :: string where "LabelWorkloadType = ''clabernetes/workloadType''"
definition LabelNetworkingMode :: string where
  "LabelNetworkingMode = ''clabernetes/networkingMode''"
definition LabelNodeKind :: string where "LabelNodeKind = ''clabernetes/nodeKind''"

text \<open>
  The constants \<open>ExecutionModeEnv\<close> and \<open>NetworkingModeEnv\<close> are used by the renderer
  and declared outside the files at hand; they are parameters of the model.
\<close>

record EnvNames =
  ExecutionModeEnv :: string
  NetworkingModeEnv :: string

section \<open>Workload renderer (package renderer)\<close>

text \<open>
  The topology and the node definition are declared outside the files at hand; the
  records have the fields that the renderer reads. \<open>ExecutionMode\<close>, \<open>CNI\<close> and
  \<open>NodeOverrides\<close> are the fields \<open>Spec.NativeExecution.ExecutionMode\<close>,
  \<open>Spec.NativeExecution.Networking.CNI\<close> and \<open>Spec.NativeExecution.NodeOverrides\<close>.
\<close>

record NodeOverride =
  ov_ExecutionMode :: string
  ov_Resources :: "ResourceRequirements option"
  ov_Config :: "string \<rightharpoonup> string"

record Topology =
  t_Name :: string
  ExecutionMode :: string
  CNI :: string
  NodeOverrides :: "string \<rightharpoonup> NodeOverride"

record NodeDefinition =
  nd_Image :: string
  nd_Kind :: string
  nd_Env :: "string \<rightharpoonup> string"
  nd_Labels :: "string \<rightharpoonup> string"
  nd_StartupConfig :: string

record Resource =
  Type :: string
  Object :: k8s_object
  Dependencies :: "string list"

record RenderResult =
  rr_WorkloadType :: WorkloadType
  rr_Resources :: "Resource list"
  rr_NodeConfig :: NodeConfig

text \<open>
  Writing the entries of one map into another in a \<open>range\<close> loop gives the same map
  for every order of the walk: it is \<open>m ++ n\<close>.
\<close>

definition buildNodeConfig ::
  "EnvNames \<Rightarrow> string \<Rightarrow> NodeDefinition \<Rightarrow> Topology \<Rightarrow> NodeConfig" where
  "buildNodeConfig names nodeName config topology =
     (let labels0 = [LabelTopology \<mapsto> t_Name topology, LabelTopologyNode \<mapsto> nodeName,
                     LabelNodeKind \<mapsto> nd_Kind config];
          env0 = Map.empty;
          (env1, labels1) =
            (if ExecutionMode topology \<noteq> ''''
             then (env0(ExecutionModeEnv names \<mapsto> ExecutionMode topology),
                   labels0(LabelExecutionMode \<mapsto> ExecutionMode topology))
             else (env0, labels0));
          (env2, labels2) =
            (if CNI topology \<noteq> ''''
             then (env1(NetworkingModeEnv names \<mapsto> CNI topology),
                   labels1(LabelNetworkingMode \<mapsto> CNI topology))
             else (env1, labels1));
          (env3, labels3, resources3) =
            (case NodeOverrides topology nodeName of
               None \<Rightarrow> (env2, labels2, None)
             | Some override \<Rightarrow>
                 (let (e, l) =
                        (if ov_ExecutionMode override \<noteq> ''''
                         then (env2(ExecutionModeEnv names \<mapsto> ov_ExecutionMode override),
                               labels2(LabelExecutionMode \<mapsto> ov_ExecutionMode override))
                         else (env2, labels2))
                  in (e ++ ov_Config override, l, ov_Resources override)));
          env4 = env3 ++ nd_Env config;
          labels4 = labels3 ++ nd_Labels config
      in \<lparr> Name = nodeName, NodeImage = nd_Image config, Kind = nd_Kind config,
           Labels = labels4, Annotations = Map.empty, Environment = env4,
           Interfaces = [\<lparr> if_Name = ''eth0'', if_Type = ''ethernet'', if_Endpoint = None \<rparr>],
           Resources = resources3,
           StartupConfig = (if nd_StartupConfig config \<noteq> '''' then nd_StartupConfig config
                            else ''''),
           Files = Map.empty \<rparr>)"

text \<open>
  \<open>buildDeployment\<close> appends one \<open>EnvVar\<close> per entry of \<open>config.Environment\<close> in a
  \<open>range\<close> loop over that map. Go leaves the order of the walk open, and the result is
  a slice, so the order is an argument of the model: \<open>envOrder\<close> lists the keys of the
  map in the order in which this run of the loop visits them.
\<close>

definition valid_range_order :: "string list \<Rightarrow> (string \<rightharpoonup> 'v) \<Rightarrow> bool" where
  "valid_range_order order m = (distinct order \<and> set order = dom m)"

definition buildDeployment ::
  "string list \<Rightarrow> NodeConfig \<Rightarrow> Topology \<Rightarrow> string \<Rightarrow> Deployment" where
  "buildDeployment envOrder config topology namespace =
     (let labels = (Labels config)(LabelWorkloadType \<mapsto> WorkloadTypeContainer);
          annotations = Annotations config;
          env = List.map_filter
                  (\<lambda>k. map_option (\<lambda>v. \<lparr> ev_Name = k, ev_Value = v \<rparr>) (Environment config k))
                  envOrder;
          ports = [ \<lparr> cp_Name = ''ssh'', cp_ContainerPort = 22, cp_Protocol = ProtocolTCP \<rparr>,
                    \<lparr> cp_Name = ''netconf'', cp_ContainerPort = 830, cp_Protocol = ProtocolTCP \<rparr>,
                    \<lparr> cp_Name = ''gnmi'', cp_ContainerPort = 57400, cp_Protocol = ProtocolTCP \<rparr> ];
          container =
            \<lparr> ct_Name = Name config, ct_Image = NodeImage config, ct_Env = env,
              ct_Ports = ports,
              ct_SecurityContext =
                Some \<lparr> sc_Capabilities = Some \<lparr> cap_Add = [''NET_ADMIN''] \<rparr> \<rparr>,
              ct_ImagePullPolicy = PullIfNotPresent,
              ct_Resources = (case Resources config of
                                Some r \<Rightarrow> r
                              | None \<Rightarrow> emptyResourceRequirements) \<rparr>;
          replicas = (1::int)
      in \<lparr> d_ObjectMeta =
             emptyObjectMeta \<lparr> om_Name := Name config, om_Namespace := namespace,
                               om_Labels := labels, om_Annotations := annotations \<rparr>,
           d_Spec =
             \<lparr> ds_Replicas = Some replicas,
               ds_Selector = Some \<lparr> MatchLabels = [LabelTopologyNode \<mapsto> Name config] \<rparr>,
               ds_Template =
                 \<lparr> pt_ObjectMeta =
                     emptyObjectMeta \<lparr> om_Labels := labels, om_Annotations := annotations \<rparr>,
                   pt_Spec = \<lparr> ps_Containers = [container],
                               ps_RestartPolicy = RestartPolicyAlways \<rparr> \<rparr>,
               ds_Strategy = \<lparr> st_Type = '''' \<rparr> \<rparr> \<rparr>)"

definition buildVirtualMachine :: "NodeConfig \<Rightarrow> Topology \<Rightarrow> string \<Rightarrow> Unstructured" where
  "buildVirtualMachine config topology namespace =
     (let labels = (Labels config)(LabelWorkloadType \<mapsto> WorkloadTypeVM,
                                   ''kubevirt.io/vm'' \<mapsto> Name config)
      in \<lparr> u_Object = fmap_of_list
          [ (''apiVersion'', GString ''kubevirt.io/v1''),
            (''kind'', GString ''VirtualMachine''),
            (''metadata'', GObject
              [ (''name'', GString (Name config)),
                (''namespace'', GString namespace),
                (''labels'', GStringMap labels) ]),
            (''spec'', GObject
              [ (''running'', GBool True),
                (''template'', GObject
                  [ (''metadata'', GObject [ (''labels'', GStringMap labels) ]),
                    (''spec'', GObject
                      [ (''domain'', GObject
                          [ (''devices'', GObject
                              [ (''disks'', GList
                                  [ GObject [ (''name'', GString ''containerdisk''),
                                           (''disk'', GObject [ (''bus'', GString ''virtio'') ]) ] ]),
                                (''interfaces'', GList
                                  [ GObject [ (''name'', GString ''default''),
                                           (''masquerade'', GObject []) ] ]) ]),
                            (''resources'', GObject
                              [ (''requests'', GObject
                                  [ (''memory'', GString ''1Gi''),
                                    (''cpu'', GString ''1'') ]) ]) ]),
                        (''networks'', GList
                          [ GObject [ (''name'', GString ''default''), (''pod'', GObject []) ] ]),
                        (''volumes'', GList
                          [ GObject [ (''name'', GString ''containerdisk''),
                                   (''containerDisk'', GObject
                                      [ (''image'', GString (NodeImage config)) ]) ] ])
                      ]) ]) ]) ] \<rparr>)"

definition buildService :: "NodeConfig \<Rightarrow> Topology \<Rightarrow> string \<Rightarrow> Service" where
  "buildService config topology namespace =
     (let labels = [LabelTopology \<mapsto> t_Name topology, LabelTopologyNode \<mapsto> Name config];
          ports = [ \<lparr> sp_Name = ''ssh'', sp_Port = 22, sp_Protocol = ProtocolTCP \<rparr>,
                    \<lparr> sp_Name = ''netconf'', sp_Port = 830, sp_Protocol = ProtocolTCP \<rparr>,
                    \<lparr> sp_Name = ''gnmi'', sp_Port = 57400, sp_Protocol = ProtocolTCP \<rparr> ]
      in \<lparr> s_ObjectMeta =
             emptyObjectMeta \<lparr> om_Name := Name config, om_Namespace := namespace,
                               om_Labels := labels \<rparr>,
           s_Spec = \<lparr> ss_Ports = ports,
                      ss_Selector = [LabelTopologyNode \<mapsto> Name config],
                      ss_ClusterIP = '''',
                      ss_Type = ServiceTypeClusterIP \<rparr> \<rparr>)"

definition buildConfigMap :: "NodeConfig \<Rightarrow> Topology \<Rightarrow> string \<Rightarrow> ConfigMap" where
  "buildConfigMap config topology namespace =
     (let labels = [LabelTopology \<mapsto> t_Name topology, LabelTopologyNode \<mapsto> Name config];
          data0 = Files config;
          data = (if StartupConfig config \<noteq> ''''
                  then data0(''startup-config'' \<mapsto> StartupConfig config) else data0)
      in \<lparr> cm_ObjectMeta =
             emptyObjectMeta \<lparr> om_Name := Name config @ ''-config'', om_Namespace := namespace,
                               om_Labels := labels \<rparr>,
           cm_Data = data \<rparr>)"

definition renderContainerResources ::
  "string list \<Rightarrow> NodeConfig \<Rightarrow> Topology \<Rightarrow> string \<Rightarrow> Resource list" where
  "renderContainerResources envOrder config topology namespace =
     (let deployment = buildDeployment envOrder config topology namespace;
          service = buildService config topology namespace
      in [ \<lparr> Type = ''Deployment'', Object = ObjDeployment deployment, Dependencies = [] \<rparr>,
           \<lparr> Type = ''Service'', Object = ObjService service,
             Dependencies = [om_Name (d_ObjectMeta deployment)] \<rparr> ])"

definition renderVMResources :: "NodeConfig \<Rightarrow> Topology \<Rightarrow> string \<Rightarrow> Resource list" where
  "renderVMResources config topology namespace =
     (let vm = buildVirtualMachine config topology namespace;
          service = buildService config topology namespace
      in [ \<lparr> Type = ''VirtualMachine'', Object = ObjUnstructured vm, Dependencies = [] \<rparr>,
           \<lparr> Type = ''Service'', Object = ObjService service,
             Dependencies = [Name config @ ''-vm''] \<rparr> ])"

definition renderCommonResources :: "NodeConfig \<Rightarrow> Topology \<Rightarrow> string \<Rightarrow> Resource list" where
  "renderCommonResources config topology namespace =
     (if Files config \<noteq> Map.empty \<or> StartupConfig config \<noteq> ''''
      then [ \<lparr> Type = ''ConfigMap'',
               Object = ObjConfigMap (buildConfigMap config topology namespace),
               Dependencies = [] \<rparr> ]
      else [])"

text \<open>Errors are values: \<open>Inl\<close> carries the error, \<open>Inr\<close> the result.\<close>

datatype render_error =
    UnsupportedWorkloadType WorkloadType
  | RenderNodeFailed string render_error

definition renderNodeResources ::
  "string list \<Rightarrow> NodeConfig \<Rightarrow> WorkloadType \<Rightarrow> Topology \<Rightarrow> string
     \<Rightarrow> render_error + Resource list" where
  "renderNodeResources envOrder config workloadType topology namespace =
     (if workloadType = WorkloadTypeContainer
      then Inr (renderContainerResources envOrder config topology namespace
                @ renderCommonResources config topology namespace)
      else if workloadType = WorkloadTypeVM
      then Inr (renderVMResources config topology namespace
                @ renderCommonResources config topology namespace)
      else Inl (UnsupportedWorkloadType workloadType))"

text \<open>
  \<open>RenderTopologyWorkloads\<close> walks the map \<open>configs\<close>; \<open>nodeOrder\<close> lists its keys in
  the order of this run's walk, and \<open>envOrder nodeName\<close> is the order in which
  \<open>buildDeployment\<close> walks the environment of that node. The loop returns at the first
  node whose rendering fails.
\<close>

fun renderNodes ::
  "EnvNames \<Rightarrow> WorkloadClassifier \<Rightarrow> (string \<Rightarrow> string list) \<Rightarrow> Topology
     \<Rightarrow> (string \<rightharpoonup> NodeDefinition) \<Rightarrow> string \<Rightarrow> string list
     \<Rightarrow> (string \<rightharpoonup> RenderResult) \<Rightarrow> render_error + (string \<rightharpoonup> RenderResult)" where
  "renderNodes names classifier envOrder topology configs namespace [] results = Inr results"
| "renderNodes names classifier envOrder topology configs namespace (nodeName # rest) results =
     (case configs nodeName of
        None \<Rightarrow> renderNodes names classifier envOrder topology configs namespace rest results
      | Some config \<Rightarrow>
          (let nodeConfig = buildNodeConfig names nodeName config topology;
               workloadType = DetermineWorkloadType classifier nodeConfig
           in case renderNodeResources (envOrder nodeName) nodeConfig workloadType topology
                     namespace of
                Inl err \<Rightarrow> Inl (RenderNodeFailed nodeName err)
              | Inr resources \<Rightarrow>
                  renderNodes names classifier envOrder topology configs namespace rest
                    (results(nodeName \<mapsto>
                       \<lparr> rr_WorkloadType = workloadType, rr_Resources = resources,
                         rr_NodeConfig = nodeConfig \<rparr>))))"

definition RenderTopologyWorkloads ::
  "EnvNames \<Rightarrow> WorkloadClassifier \<Rightarrow> string list \<Rightarrow> (string \<Rightarrow> string list) \<Rightarrow> Topology
     \<Rightarrow> (string \<rightharpoonup> NodeDefinition) \<Rightarrow> string
     \<Rightarrow> render_error + (string \<rightharpoonup> RenderResult)" where
  "RenderTopologyWorkloads names classifier nodeOrder envOrder topology configs namespace =
     renderNodes names classifier envOrder topology configs namespace nodeOrder Map.empty"

section \<open>VM executor (package vm)\<close>

text \<open>\<open>fmt.Sprintf\<close> with \<open>%d\<close> on a non-negative number.\<close>

function Itoa :: "nat \<Rightarrow> string" where
  "Itoa n = (if n < 10 then [''0123456789'' ! n]
             else Itoa (n div 10) @ [''0123456789'' ! (n mod 10)])"
  by pat_completeness auto
termination
  by (relation "measure id") auto

declare Itoa.simps [simp del]

definition newline :: string where
  "newline = [CHR 0x0A]"

definition doublequote :: string where
  "doublequote = [CHR 0x22]"

definition generateCloudInitUserData :: "NodeConfig \<Rightarrow> string" where
  "generateCloudInitUserData config =
     (let userData =
            ''#cloud-config'' @ newline @
            ''hostname: '' @ Name config @ newline @
            ''users:'' @ newline @
            ''  - name: admin'' @ newline @
            ''    sudo: ALL=(ALL) NOPASSWD:ALL'' @ newline @
            ''    shell: /bin/bash'' @ newline @
            ''    ssh_authorized_keys:'' @ newline @
            ''      - ssh-rsa AAAAB3NzaC1yc2EAAAADAQABAAABgQC... # Add your SSH key here'' @ newline @
            ''runcmd:'' @ newline @
            ''  - echo '' @ doublequote @ ''Node '' @ Name config @ '' started'' @ doublequote @
            '' > /var/log/clabernetes-init.log'' @ newline
      in if StartupConfig config \<noteq> ''''
         then userData @ ''  - echo '' @ doublequote @ StartupConfig config @ doublequote @
              '' > /tmp/startup-config.txt'' @ newline
         else userData)"

text \<open>
  \<open>renderVirtualMachine\<close> of the VM executor; \<open>namespace\<close> is the field
  \<open>e.namespace\<close> of the executor.
\<close>

definition renderVirtualMachine :: "string \<Rightarrow> NodeConfig \<Rightarrow> (string, go_value) fmap" where
  "renderVirtualMachine namespace config =
     (let labels = [ ''app'' \<mapsto> Name config,
                     LabelTopologyNode \<mapsto> Name config,
                     ''clabernetes/execution-mode'' \<mapsto> ''native'',
                     ''clabernetes/workload-type'' \<mapsto> ''vm'',
                     ''kubevirt.io/vm'' \<mapsto> Name config ] ++ Labels config;
          annotations = [ ''clabernetes/node-kind'' \<mapsto> Kind config,
                          ''clabernetes/image'' \<mapsto> NodeImage config ] ++ Annotations config;
          interfaces =
            GObject [ (''name'', GString ''default''), (''masquerade'', GObject []) ] #
            map (\<lambda>i. GObject [ (''name'', GString (''net'' @ Itoa (i + 1))),
                                (''bridge'', GObject []) ])
                [0 ..< length (Interfaces config)];
          networks =
            GObject [ (''name'', GString ''default''), (''pod'', GObject []) ] #
            map (\<lambda>i. GObject [ (''name'', GString (''net'' @ Itoa (i + 1))),
                                (''multus'', GObject
                                   [ (''networkName'',
                                      GString (Name config @ ''-net'' @ Itoa (i + 1))) ]) ])
                [0 ..< length (Interfaces config)];
          (memory0, cpu0) =
            (if Kind config = ''vyos'' \<or> Kind config = ''opnsense'' \<or> Kind config = ''pfsense''
             then (''2Gi'', ''2'')
             else if Kind config = ''csr1000v'' \<or> Kind config = ''vmx''
             then (''4Gi'', ''2'')
             else (''1Gi'', ''1''));
          (memory, cpu) =
            (case Resources config of
               None \<Rightarrow> (memory0, cpu0)
             | Some r \<Rightarrow>
                 (let mem = index_ResourceList (Requests r) ResourceMemory;
                      cpuRes = index_ResourceList (Requests r) ResourceCPU
                  in (if \<not> IsZero mem then mem else memory0,
                      if \<not> IsZero cpuRes then cpuRes else cpu0)))
      in fmap_of_list
          [ (''apiVersion'', GString ''kubevirt.io/v1''),
            (''kind'', GString ''VirtualMachine''),
            (''metadata'', GObject
              [ (''name'', GString (Name config)),
                (''namespace'', GString namespace),
                (''labels'', GStringMap labels),
                (''annotations'', GStringMap annotations) ]),
            (''spec'', GObject
              [ (''running'', GBool True),
                (''template'', GObject
                  [ (''metadata'', GObject [ (''labels'', GStringMap labels) ]),
                    (''spec'', GObject
                      [ (''domain'', GObject
                          [ (''devices'', GObject
                              [ (''disks'', GList
                                  [ GObject [ (''name'', GString ''containerdisk''),
                                              (''disk'', GObject [ (''bus'', GString ''virtio'') ]) ],
                                    GObject [ (''name'', GString ''cloudinitdisk''),
                                              (''disk'', GObject [ (''bus'', GString ''virtio'') ]) ] ]),
                                (''interfaces'', GList interfaces) ]),
                            (''resources'', GObject
                              [ (''requests'', GObject
                                  [ (''memory'', GString memory),
                                    (''cpu'', GString cpu) ]) ]) ]),
                        (''networks'', GList networks),
                        (''volumes'', GList
                          [ GObject [ (''name'', GString ''containerdisk''),
                                      (''containerDisk'', GObject
                                         [ (''image'', GString (NodeImage config)) ]) ],
                            GObject [ (''name'', GString ''cloudinitdisk''),
                                      (''cloudInitNoCloud'', GObject
                                         [ (''userData'',
                                            GString (generateCloudInitUserData config)) ]) ] ])
                      ]) ]) ]) ])"

section \<open>Access to unstructured objects\<close>

text \<open>
  The helpers of \<open>k8s.io/apimachinery\<close> that the reconciler calls, modelled from
  their documentation: \<open>NestedFieldNoCopy\<close> walks nested maps along a path,
  \<open>NestedString\<close> and \<open>NestedMap\<close> read a string or a map at a path (the callers here
  drop the \<open>found\<close> and \<open>err\<close> results, so a missing or ill-typed field reads as the
  empty string or the nil map, \<open>None\<close>), and \<open>SetResourceVersion\<close> writes
  \<open>metadata.resourceVersion\<close>, creating \<open>metadata\<close> if it is missing.
\<close>

fun NestedFieldNoCopy :: "go_value \<Rightarrow> string list \<Rightarrow> go_value option" where
  "NestedFieldNoCopy v [] = Some v"
| "NestedFieldNoCopy (GMap m) (field # path) =
     (case fmlookup m field of
        None \<Rightarrow> None
      | Some v \<Rightarrow> NestedFieldNoCopy v path)"
| "NestedFieldNoCopy v (field # path) = None"

definition NestedString :: "(string, go_value) fmap \<Rightarrow> string list \<Rightarrow> string" where
  "NestedString obj path =
     (case NestedFieldNoCopy (GMap obj) path of
        Some (GString s) \<Rightarrow> s
      | _ \<Rightarrow> '''')"

definition NestedMap ::
  "(string, go_value) fmap \<Rightarrow> string list \<Rightarrow> (string, go_value) fmap option" where
  "NestedMap obj path =
     (case NestedFieldNoCopy (GMap obj) path of
        Some (GMap m) \<Rightarrow> Some m
      | _ \<Rightarrow> None)"

definition GetName :: "Unstructured \<Rightarrow> string" where
  "GetName u = NestedString (u_Object u) [''metadata'', ''name'']"

definition GetNamespace :: "Unstructured \<Rightarrow> string" where
  "GetNamespace u = NestedString (u_Object u) [''metadata'', ''namespace'']"

definition GetKind :: "Unstructured \<Rightarrow> string" where
  "GetKind u = NestedString (u_Object u) [''kind'']"

definition GetResourceVersion :: "Unstructured \<Rightarrow> string" where
  "GetResourceVersion u = NestedString (u_Object u) [''metadata'', ''resourceVersion'']"

definition SetResourceVersion :: "string \<Rightarrow> Unstructured \<Rightarrow> Unstructured" where
  "SetResourceVersion resourceVersion u =
     (case fmlookup (u_Object u) ''metadata'' of
        None \<Rightarrow>
          u\<lparr> u_Object :=
               fmupd ''metadata''
                 (GMap (fmupd ''resourceVersion'' (GString resourceVersion) fmempty))
                 (u_Object u) \<rparr>
      | Some (GMap m) \<Rightarrow>
          u\<lparr> u_Object :=
               fmupd ''metadata''
                 (GMap (fmupd ''resourceVersion'' (GString resourceVersion) m))
                 (u_Object u) \<rparr>
      | Some _ \<Rightarrow> u)"

section \<open>The cluster behind the Kubernetes clients\<close>

text \<open>
  The API server is outside the program. It is modelled as an object store per kind,
  keyed by namespace and name, that keeps what is written to it and assigns the
  server-side fields: a fresh \<open>resourceVersion\<close> on every write and a cluster IP to a
  Service created without one. An update that carries a \<open>resourceVersion\<close> must
  carry the stored one (optimistic concurrency; an update without one is
  unconditional), and the cluster IP of a Service cannot change. Any call
  can be made to fail: \<open>faults verb kind namespace name\<close> is the error injected into
  that call, if any.
\<close>

datatype api_error = NotFound | AlreadyExists | Conflict | Invalid | Unavailable

datatype verb = VerbGet | VerbCreate | VerbUpdate | VerbDelete | VerbList

datatype kind = KDeployment | KService | KConfigMap | KVirtualMachine

type_synonym faults = "verb \<Rightarrow> kind \<Rightarrow> string \<Rightarrow> string \<Rightarrow> api_error option"

type_synonym 'a store = "((string \<times> string) \<times> 'a) list"

record Cluster =
  Deployments :: "Deployment store"
  Services :: "Service store"
  ConfigMaps :: "ConfigMap store"
  VirtualMachines :: "Unstructured store"
  nextVersion :: nat

definition IsNotFound :: "api_error \<Rightarrow> bool" where
  "IsNotFound e = (e = NotFound)"

definition store_get ::
  "faults \<Rightarrow> kind \<Rightarrow> 'a store \<Rightarrow> string \<Rightarrow> string \<Rightarrow> api_error + 'a" where
  "store_get flt k s ns name =
     (case flt VerbGet k ns name of
        Some e \<Rightarrow> Inl e
      | None \<Rightarrow> (case map_of s (ns, name) of
                   None \<Rightarrow> Inl NotFound
                 | Some obj \<Rightarrow> Inr obj))"

definition store_create ::
  "faults \<Rightarrow> kind \<Rightarrow> 'a store \<Rightarrow> string \<Rightarrow> string \<Rightarrow> 'a \<Rightarrow> api_error + 'a store" where
  "store_create flt k s ns name obj =
     (case flt VerbCreate k ns name of
        Some e \<Rightarrow> Inl e
      | None \<Rightarrow> (if map_of s (ns, name) \<noteq> None then Inl AlreadyExists
                 else Inr (AList.update (ns, name) obj s)))"

definition store_update ::
  "faults \<Rightarrow> kind \<Rightarrow> ('a \<Rightarrow> 'a \<Rightarrow> api_error option) \<Rightarrow> 'a store \<Rightarrow> string \<Rightarrow> string \<Rightarrow> 'a
     \<Rightarrow> api_error + 'a store" where
  "store_update flt k admit s ns name obj =
     (case flt VerbUpdate k ns name of
        Some e \<Rightarrow> Inl e
      | None \<Rightarrow> (case map_of s (ns, name) of
                   None \<Rightarrow> Inl NotFound
                 | Some old \<Rightarrow> (case admit old obj of
                                 Some e \<Rightarrow> Inl e
                               | None \<Rightarrow> Inr (AList.update (ns, name) obj s))))"

definition store_delete ::
  "faults \<Rightarrow> kind \<Rightarrow> 'a store \<Rightarrow> string \<Rightarrow> string \<Rightarrow> api_error + 'a store" where
  "store_delete flt k s ns name =
     (case flt VerbDelete k ns name of
        Some e \<Rightarrow> Inl e
      | None \<Rightarrow> (if map_of s (ns, name) = None then Inl NotFound
                 else Inr (AList.delete (ns, name) s)))"

text \<open>
  A list call in a namespace with the label selector \<open>key=value\<close>; the fault of a
  list call is looked up under the empty name.
\<close>

definition store_list ::
  "faults \<Rightarrow> kind \<Rightarrow> ('a \<Rightarrow> string \<rightharpoonup> string) \<Rightarrow> 'a store \<Rightarrow> string \<Rightarrow> string \<Rightarrow> string
     \<Rightarrow> api_error + 'a list" where
  "store_list flt k labelsOf s ns key val =
     (case flt VerbList k ns '''' of
        Some e \<Rightarrow> Inl e
      | None \<Rightarrow> Inr (map snd (filter (\<lambda>((ns', name), obj). ns' = ns \<and> labelsOf obj key = Some val) s)))"

definition checkResourceVersion :: "string \<Rightarrow> string \<Rightarrow> api_error option" where
  "checkResourceVersion stored submitted =
     (if submitted \<noteq> '''' \<and> submitted \<noteq> stored then Some Conflict else None)"

definition allocateClusterIP :: "nat \<Rightarrow> string" where
  "allocateClusterIP n = ''10.96.0.'' @ Itoa n"

text \<open>The typed clients: \<open>kubeClient.AppsV1().Deployments(namespace)\<close> and so on.\<close>

definition Deployments_Get ::
  "faults \<Rightarrow> Cluster \<Rightarrow> string \<Rightarrow> string \<Rightarrow> api_error + Deployment" where
  "Deployments_Get flt cl ns name = store_get flt KDeployment (Deployments cl) ns name"

definition Deployments_Create ::
  "faults \<Rightarrow> Cluster \<Rightarrow> string \<Rightarrow> Deployment \<Rightarrow> api_error + Cluster" where
  "Deployments_Create flt cl ns d =
     (case store_create flt KDeployment (Deployments cl) ns (om_Name (d_ObjectMeta d))
             (d\<lparr> d_ObjectMeta := (d_ObjectMeta d)\<lparr> om_ResourceVersion := Itoa (nextVersion cl) \<rparr> \<rparr>) of
        Inl e \<Rightarrow> Inl e
      | Inr s \<Rightarrow> Inr (cl\<lparr> Deployments := s, nextVersion := Suc (nextVersion cl) \<rparr>))"

definition Deployments_Update ::
  "faults \<Rightarrow> Cluster \<Rightarrow> string \<Rightarrow> Deployment \<Rightarrow> api_error + Cluster" where
  "Deployments_Update flt cl ns d =
     (case store_update flt KDeployment
             (\<lambda>old new. checkResourceVersion (om_ResourceVersion (d_ObjectMeta old))
                          (om_ResourceVersion (d_ObjectMeta d)))
             (Deployments cl) ns (om_Name (d_ObjectMeta d))
             (d\<lparr> d_ObjectMeta := (d_ObjectMeta d)\<lparr> om_ResourceVersion := Itoa (nextVersion cl) \<rparr> \<rparr>) of
        Inl e \<Rightarrow> Inl e
      | Inr s \<Rightarrow> Inr (cl\<lparr> Deployments := s, nextVersion := Suc (nextVersion cl) \<rparr>))"

definition Deployments_Delete ::
  "faults \<Rightarrow> Cluster \<Rightarrow> string \<Rightarrow> string \<Rightarrow> api_error + Cluster" where
  "Deployments_Delete flt cl ns name =
     (case store_delete flt KDeployment (Deployments cl) ns name of
        Inl e \<Rightarrow> Inl e
      | Inr s \<Rightarrow> Inr (cl\<lparr> Deployments := s \<rparr>))"

definition Deployments_List ::
  "faults \<Rightarrow> Cluster \<Rightarrow> string \<Rightarrow> string \<Rightarrow> string \<Rightarrow> api_error + Deployment list" where
  "Deployments_List flt cl ns key val =
     store_list flt KDeployment (\<lambda>d. om_Labels (d_ObjectMeta d)) (Deployments cl) ns key val"

definition Services_Get ::
  "faults \<Rightarrow> Cluster \<Rightarrow> string \<Rightarrow> string \<Rightarrow> api_error + Service" where
  "Services_Get flt cl ns name = store_get flt KService (Services cl) ns name"

definition Services_Create ::
  "faults \<Rightarrow> Cluster \<Rightarrow> string \<Rightarrow> Service \<Rightarrow> api_error + Cluster" where
  "Services_Create flt cl ns svc =
     (case store_create flt KService (Services cl) ns (om_Name (s_ObjectMeta svc))
             (svc\<lparr> s_ObjectMeta := (s_ObjectMeta svc)\<lparr> om_ResourceVersion := Itoa (nextVersion cl) \<rparr>,
                   s_Spec := (s_Spec svc)\<lparr> ss_ClusterIP :=
                     (if ss_ClusterIP (s_Spec svc) = '''' then allocateClusterIP (nextVersion cl)
                      else ss_ClusterIP (s_Spec svc)) \<rparr> \<rparr>) of
        Inl e \<Rightarrow> Inl e
      | Inr s \<Rightarrow> Inr (cl\<lparr> Services := s, nextVersion := Suc (nextVersion cl) \<rparr>))"

definition Services_Update ::
  "faults \<Rightarrow> Cluster \<Rightarrow> string \<Rightarrow> Service \<Rightarrow> api_error + Cluster" where
  "Services_Update flt cl ns svc =
     (case store_update flt KService
             (\<lambda>old new.
                if ss_ClusterIP (s_Spec svc) \<noteq> ss_ClusterIP (s_Spec old) then Some Invalid
                else checkResourceVersion (om_ResourceVersion (s_ObjectMeta old))
                       (om_ResourceVersion (s_ObjectMeta svc)))
             (Services cl) ns (om_Name (s_ObjectMeta svc))
             (svc\<lparr> s_ObjectMeta := (s_ObjectMeta svc)\<lparr> om_ResourceVersion := Itoa (nextVersion cl) \<rparr> \<rparr>) of
        Inl e \<Rightarrow> Inl e
      | Inr s \<Rightarrow> Inr (cl\<lparr> Services := s, nextVersion := Suc (nextVersion cl) \<rparr>))"

definition Services_Delete ::
  "faults \<Rightarrow> Cluster \<Rightarrow> string \<Rightarrow> string \<Rightarrow> api_error + Cluster" where
  "Services_Delete flt cl ns name =
     (case store_delete flt KService (Services cl) ns name of
        Inl e \<Rightarrow> Inl e
      | Inr s \<Rightarrow> Inr (cl\<lparr> Services := s \<rparr>))"

definition Services_List ::
  "faults \<Rightarrow> Cluster \<Rightarrow> string \<Rightarrow> string \<Rightarrow> string \<Rightarrow> api_error + Service list" where
  "Services_List flt cl ns key val =
     store_list flt KService (\<lambda>svc. om_Labels (s_ObjectMeta svc)) (Services cl) ns key val"

definition ConfigMaps_Get ::
  "faults \<Rightarrow> Cluster \<Rightarrow> string \<Rightarrow> string \<Rightarrow> api_error + ConfigMap" where
  "ConfigMaps_Get flt cl ns name = store_get flt KConfigMap (ConfigMaps cl) ns name"

definition ConfigMaps_Create ::
  "faults \<Rightarrow> Cluster \<Rightarrow> string \<Rightarrow> ConfigMap \<Rightarrow> api_error + Cluster" where
  "ConfigMaps_Create flt cl ns cm =
     (case store_create flt KConfigMap (ConfigMaps cl) ns (om_Name (cm_ObjectMeta cm))
             (cm\<lparr> cm_ObjectMeta := (cm_ObjectMeta cm)\<lparr> om_ResourceVersion := Itoa (nextVersion cl) \<rparr> \<rparr>) of
        Inl e \<Rightarrow> Inl e
      | Inr s \<Rightarrow> Inr (cl\<lparr> ConfigMaps := s, nextVersion := Suc (nextVersion cl) \<rparr>))"

definition ConfigMaps_Update ::
  "faults \<Rightarrow> Cluster \<Rightarrow> string \<Rightarrow> ConfigMap \<Rightarrow> api_error + Cluster" where
  "ConfigMaps_Update flt cl ns cm =
     (case store_update flt KConfigMap
             (\<lambda>old new. checkResourceVersion (om_ResourceVersion (cm_ObjectMeta old))
                          (om_ResourceVersion (cm_ObjectMeta cm)))
             (ConfigMaps cl) ns (om_Name (cm_ObjectMeta cm))
             (cm\<lparr> cm_ObjectMeta := (cm_ObjectMeta cm)\<lparr> om_ResourceVersion := Itoa (nextVersion cl) \<rparr> \<rparr>) of
        Inl e \<Rightarrow> Inl e
      | Inr s \<Rightarrow> Inr (cl\<lparr> ConfigMaps := s, nextVersion := Suc (nextVersion cl) \<rparr>))"

definition ConfigMaps_Delete ::
  "faults \<Rightarrow> Cluster \<Rightarrow> string \<Rightarrow> string \<Rightarrow> api_error + Cluster" where
  "ConfigMaps_Delete flt cl ns name =
     (case store_delete flt KConfigMap (ConfigMaps cl) ns name of
        Inl e \<Rightarrow> Inl e
      | Inr s \<Rightarrow> Inr (cl\<lparr> ConfigMaps := s \<rparr>))"

definition ConfigMaps_List ::
  "faults \<Rightarrow> Cluster \<Rightarrow> string \<Rightarrow> string \<Rightarrow> string \<Rightarrow> api_error + ConfigMap list" where
  "ConfigMaps_List flt cl ns key val =
     store_list flt KConfigMap (\<lambda>cm. om_Labels (cm_ObjectMeta cm)) (ConfigMaps cl) ns key val"

text \<open>The dynamic client for \<open>kubevirt.io/v1\<close> \<open>virtualmachines\<close>.\<close>

definition VirtualMachines_Get ::
  "faults \<Rightarrow> Cluster \<Rightarrow> string \<Rightarrow> string \<Rightarrow> api_error + Unstructured" where
  "VirtualMachines_Get flt cl ns name =
     store_get flt KVirtualMachine (VirtualMachines cl) ns name"

definition VirtualMachines_Create ::
  "faults \<Rightarrow> Cluster \<Rightarrow> string \<Rightarrow> Unstructured \<Rightarrow> api_error + Cluster" where
  "VirtualMachines_Create flt cl ns vm =
     (case store_create flt KVirtualMachine (VirtualMachines cl) ns (GetName vm)
             (SetResourceVersion (Itoa (nextVersion cl)) vm) of
        Inl e \<Rightarrow> Inl e
      | Inr s \<Rightarrow> Inr (cl\<lparr> VirtualMachines := s, nextVersion := Suc (nextVersion cl) \<rparr>))"

definition VirtualMachines_Update ::
  "faults \<Rightarrow> Cluster \<Rightarrow> string \<Rightarrow> Unstructured \<Rightarrow> api_error + Cluster" where
  "VirtualMachines_Update flt cl ns vm =
     (case store_update flt KVirtualMachine
             (\<lambda>old new. checkResourceVersion (GetResourceVersion old) (GetResourceVersion vm))
             (VirtualMachines cl) ns (GetName vm)
             (SetResourceVersion (Itoa (nextVersion cl)) vm) of
        Inl e \<Rightarrow> Inl e
      | Inr s \<Rightarrow> Inr (cl\<lparr> VirtualMachines := s, nextVersion := Suc (nextVersion cl) \<rparr>))"

section \<open>Workload reconciler (package reconciler)\<close>

text \<open>
  Errors are values. \<open>fmt.Errorf("...: %w", err)\<close> is \<open>Wrapped\<close> of its message and
  the error it wraps.
\<close>

datatype err = ApiErr api_error | Msg string | Wrapped string err

record ResourceInfo =
  ri_Type :: string
  ri_Name :: string
  ri_Namespace :: string
  ri_WorkloadType :: WorkloadType

record ReconcileResult =
  Created :: "ResourceInfo list"
  Updated :: "ResourceInfo list"
  Deleted :: "ResourceInfo list"
  Errors :: "err list"

text \<open>
  The comparisons with \<open>reflect.DeepEqual\<close> are equalities of the modelled values
  (maps and slices are compared by content).
\<close>

definition needsDeploymentUpdate :: "Deployment \<Rightarrow> Deployment \<Rightarrow> bool" where
  "needsDeploymentUpdate existing desired =
     (if ps_Containers (pt_Spec (ds_Template (d_Spec existing))) \<noteq>
         ps_Containers (pt_Spec (ds_Template (d_Spec desired))) then True
      else if om_Labels (d_ObjectMeta existing) \<noteq> om_Labels (d_ObjectMeta desired) then True
      else if om_Annotations (d_ObjectMeta existing) \<noteq> om_Annotations (d_ObjectMeta desired)
      then True
      else False)"

definition needsServiceUpdate :: "Service \<Rightarrow> Service \<Rightarrow> bool" where
  "needsServiceUpdate existing desired =
     (if ss_Ports (s_Spec existing) \<noteq> ss_Ports (s_Spec desired) then True
      else if ss_Selector (s_Spec existing) \<noteq> ss_Selector (s_Spec desired) then True
      else if ss_Type (s_Spec existing) \<noteq> ss_Type (s_Spec desired) then True
      else False)"

text \<open>
  Each \<open>reconcile...\<close> function returns its error (if any), the cluster after its API
  calls and the \<open>ReconcileResult\<close> after its appends.
\<close>

definition reconcileDeployment ::
  "faults \<Rightarrow> Cluster \<Rightarrow> Deployment \<Rightarrow> WorkloadType \<Rightarrow> ReconcileResult
     \<Rightarrow> err option \<times> Cluster \<times> ReconcileResult" where
  "reconcileDeployment flt cl deployment workloadType result =
     (let ns = om_Namespace (d_ObjectMeta deployment);
          name = om_Name (d_ObjectMeta deployment);
          info = \<lparr> ri_Type = ''Deployment'', ri_Name = name, ri_Namespace = ns,
                   ri_WorkloadType = workloadType \<rparr>
      in case Deployments_Get flt cl ns name of
           Inl e \<Rightarrow>
             (if IsNotFound e
              then (case Deployments_Create flt cl ns deployment of
                      Inl e' \<Rightarrow>
                        (Some (Wrapped (''failed to create deployment '' @ name) (ApiErr e')),
                         cl, result)
                    | Inr cl' \<Rightarrow> (None, cl', result\<lparr> Created := Created result @ [info] \<rparr>))
              else (Some (Wrapped (''failed to get deployment '' @ name) (ApiErr e)), cl, result))
         | Inr existing \<Rightarrow>
             (if needsDeploymentUpdate existing deployment
              then (case Deployments_Update flt cl ns
                           (deployment\<lparr> d_ObjectMeta := (d_ObjectMeta deployment)
                              \<lparr> om_ResourceVersion :=
                                  om_ResourceVersion (d_ObjectMeta existing) \<rparr> \<rparr>) of
                      Inl e \<Rightarrow>
                        (Some (Wrapped (''failed to update deployment '' @ name) (ApiErr e)),
                         cl, result)
                    | Inr cl' \<Rightarrow> (None, cl', result\<lparr> Updated := Updated result @ [info] \<rparr>))
              else (None, cl, result)))"

definition reconcileService ::
  "faults \<Rightarrow> Cluster \<Rightarrow> Service \<Rightarrow> WorkloadType \<Rightarrow> ReconcileResult
     \<Rightarrow> err option \<times> Cluster \<times> ReconcileResult" where
  "reconcileService flt cl service workloadType result =
     (let ns = om_Namespace (s_ObjectMeta service);
          name = om_Name (s_ObjectMeta service);
          info = \<lparr> ri_Type = ''Service'', ri_Name = name, ri_Namespace = ns,
                   ri_WorkloadType = workloadType \<rparr>
      in case Services_Get flt cl ns name of
           Inl e \<Rightarrow>
             (if IsNotFound e
              then (case Services_Create flt cl ns service of
                      Inl e' \<Rightarrow>
                        (Some (Wrapped (''failed to create service '' @ name) (ApiErr e')),
                         cl, result)
                    | Inr cl' \<Rightarrow> (None, cl', result\<lparr> Created := Created result @ [info] \<rparr>))
              else (Some (Wrapped (''failed to get service '' @ name) (ApiErr e)), cl, result))
         | Inr existing \<Rightarrow>
             (if needsServiceUpdate existing service
              then (case Services_Update flt cl ns
                           (service\<lparr> s_ObjectMeta := (s_ObjectMeta service)
                                \<lparr> om_ResourceVersion :=
                                    om_ResourceVersion (s_ObjectMeta existing) \<rparr>,
                              s_Spec := (s_Spec service)
                                \<lparr> ss_ClusterIP := ss_ClusterIP (s_Spec existing) \<rparr> \<rparr>) of
                      Inl e \<Rightarrow>
                        (Some (Wrapped (''failed to update service '' @ name) (ApiErr e)),
                         cl, result)
                    | Inr cl' \<Rightarrow> (None, cl', result\<lparr> Updated := Updated result @ [info] \<rparr>))
              else (None, cl, result)))"

definition reconcileConfigMap ::
  "faults \<Rightarrow> Cluster \<Rightarrow> ConfigMap \<Rightarrow> WorkloadType \<Rightarrow> ReconcileResult
     \<Rightarrow> err option \<times> Cluster \<times> ReconcileResult" where
  "reconcileConfigMap flt cl configMap workloadType result =
     (let ns = om_Namespace (cm_ObjectMeta configMap);
          name = om_Name (cm_ObjectMeta configMap);
          info = \<lparr> ri_Type = ''ConfigMap'', ri_Name = name, ri_Namespace = ns,
                   ri_WorkloadType = workloadType \<rparr>
      in case ConfigMaps_Get flt cl ns name of
           Inl e \<Rightarrow>
             (if IsNotFound e
              then (case ConfigMaps_Create flt cl ns configMap of
                      Inl e' \<Rightarrow>
                        (Some (Wrapped (''failed to create configmap '' @ name) (ApiErr e')),
                         cl, result)
                    | Inr cl' \<Rightarrow> (None, cl', result\<lparr> Created := Created result @ [info] \<rparr>))
              else (Some (Wrapped (''failed to get configmap '' @ name) (ApiErr e)), cl, result))
         | Inr existing \<Rightarrow>
             (if cm_Data existing \<noteq> cm_Data configMap
              then (case ConfigMaps_Update flt cl ns
                           (configMap\<lparr> cm_ObjectMeta := (cm_ObjectMeta configMap)
                              \<lparr> om_ResourceVersion :=
                                  om_ResourceVersion (cm_ObjectMeta existing) \<rparr> \<rparr>) of
                      Inl e \<Rightarrow>
                        (Some (Wrapped (''failed to update configmap '' @ name) (ApiErr e)),
                         cl, result)
                    | Inr cl' \<Rightarrow> (None, cl', result\<lparr> Updated := Updated result @ [info] \<rparr>))
              else (None, cl, result)))"

definition reconcileVirtualMachine ::
  "faults \<Rightarrow> Cluster \<Rightarrow> Unstructured \<Rightarrow> WorkloadType \<Rightarrow> ReconcileResult
     \<Rightarrow> err option \<times> Cluster \<times> ReconcileResult" where
  "reconcileVirtualMachine flt cl vm workloadType result =
     (case VirtualMachines_Get flt cl (GetNamespace vm) (GetName vm) of
        Inl e \<Rightarrow>
          (if IsNotFound e
           then (case VirtualMachines_Create flt cl (GetNamespace vm) vm of
                   Inl e' \<Rightarrow>
                     (Some (Wrapped (''failed to create VM '' @ GetName vm) (ApiErr e')),
                      cl, result)
                 | Inr cl' \<Rightarrow>
                     (None, cl',
                      result\<lparr> Created := Created result @
                        [\<lparr> ri_Type = ''VirtualMachine'', ri_Name = GetName vm,
                           ri_Namespace = GetNamespace vm,
                           ri_WorkloadType = workloadType \<rparr>] \<rparr>))
           else (Some (Wrapped (''failed to get VM '' @ GetName vm) (ApiErr e)), cl, result))
      | Inr existing \<Rightarrow>
          (let existingSpec = NestedMap (u_Object existing) [''spec''];
               desiredSpec = NestedMap (u_Object vm) [''spec'']
           in if existingSpec \<noteq> desiredSpec
              then (let vm' = SetResourceVersion (GetResourceVersion existing) vm
                    in case VirtualMachines_Update flt cl (GetNamespace vm') vm' of
                         Inl e \<Rightarrow>
                           (Some (Wrapped (''failed to update VM '' @ GetName vm') (ApiErr e)),
                            cl, result)
                       | Inr cl' \<Rightarrow>
                           (None, cl',
                            result\<lparr> Updated := Updated result @
                              [\<lparr> ri_Type = ''VirtualMachine'', ri_Name = GetName vm',
                                 ri_Namespace = GetNamespace vm',
                                 ri_WorkloadType = workloadType \<rparr>] \<rparr>))
              else (None, cl, result)))"

text \<open>
  \<open>reconcileResource\<close> asserts the dynamic type of the payload from the \<open>Type\<close> tag
  without a check. A failed type assertion panics; the panic is the result \<open>None\<close>.
\<close>

definition reconcileResource ::
  "faults \<Rightarrow> Cluster \<Rightarrow> Resource \<Rightarrow> WorkloadType \<Rightarrow> string \<Rightarrow> ReconcileResult
     \<Rightarrow> (err option \<times> Cluster \<times> ReconcileResult) option" where
  "reconcileResource flt cl resource workloadType namespace result =
     (if Type resource = ''Deployment''
      then (case Object resource of
              ObjDeployment d \<Rightarrow> Some (reconcileDeployment flt cl d workloadType result)
            | _ \<Rightarrow> None)
      else if Type resource = ''Service''
      then (case Object resource of
              ObjService svc \<Rightarrow> Some (reconcileService flt cl svc workloadType result)
            | _ \<Rightarrow> None)
      else if Type resource = ''ConfigMap''
      then (case Object resource of
              ObjConfigMap cm \<Rightarrow> Some (reconcileConfigMap flt cl cm workloadType result)
            | _ \<Rightarrow> None)
      else if Type resource = ''VirtualMachine''
      then (case Object resource of
              ObjUnstructured vm \<Rightarrow> Some (reconcileVirtualMachine flt cl vm workloadType result)
            | _ \<Rightarrow> None)
      else Some (Some (Msg (''unsupported resource type: '' @ Type resource)), cl, result))"

definition getResourceKey :: "Resource \<Rightarrow> string" where
  "getResourceKey resource =
     (case Object resource of
        ObjDeployment obj \<Rightarrow> ''Deployment/'' @ om_Name (d_ObjectMeta obj)
      | ObjService obj \<Rightarrow> ''Service/'' @ om_Name (s_ObjectMeta obj)
      | ObjConfigMap obj \<Rightarrow> ''ConfigMap/'' @ om_Name (cm_ObjectMeta obj)
      | ObjUnstructured obj \<Rightarrow> GetKind obj @ ''/'' @ GetName obj
      | ObjOther \<Rightarrow> ''Unknown/'' @ Type resource)"

text \<open>
  \<open>getExistingResources\<close>: three list calls with the selector
  \<open>clabernetes/topology=<topology name>\<close>; the items are entered into a map under
  \<open>Kind/Name\<close>. Virtual machines are not listed.
\<close>

definition getExistingResources ::
  "faults \<Rightarrow> Cluster \<Rightarrow> Topology \<Rightarrow> string \<Rightarrow> err + (string \<rightharpoonup> k8s_object)" where
  "getExistingResources flt cl topology namespace =
     (case Deployments_List flt cl namespace LabelTopology (t_Name topology) of
        Inl e \<Rightarrow> Inl (Wrapped ''failed to list deployments'' (ApiErr e))
      | Inr deployments \<Rightarrow>
          (let resources1 =
                 foldl (\<lambda>resources d.
                          resources(''Deployment/'' @ om_Name (d_ObjectMeta d) \<mapsto> ObjDeployment d))
                       Map.empty deployments
           in case Services_List flt cl namespace LabelTopology (t_Name topology) of
                Inl e \<Rightarrow> Inl (Wrapped ''failed to list services'' (ApiErr e))
              | Inr services \<Rightarrow>
                  (let resources2 =
                         foldl (\<lambda>resources svc.
                                  resources(''Service/'' @ om_Name (s_ObjectMeta svc)
                                              \<mapsto> ObjService svc))
                               resources1 services
                   in case ConfigMaps_List flt cl namespace LabelTopology (t_Name topology) of
                        Inl e \<Rightarrow> Inl (Wrapped ''failed to list configmaps'' (ApiErr e))
                      | Inr configMaps \<Rightarrow>
                          Inr (foldl (\<lambda>resources cm.
                                        resources(''ConfigMap/'' @ om_Name (cm_ObjectMeta cm)
                                                    \<mapsto> ObjConfigMap cm))
                                     resources2 configMaps))))"

text \<open>\<open>strings.SplitN(key, "/", 2)\<close>: the key is cut at its first slash, if it has one.\<close>

fun cut_slash :: "string \<Rightarrow> (string \<times> string) option" where
  "cut_slash [] = None"
| "cut_slash (c # s) =
     (if c = CHR ''/'' then Some ([], s)
      else map_option (\<lambda>(before, after). (c # before, after)) (cut_slash s))"

definition SplitN2 :: "string \<Rightarrow> string list" where
  "SplitN2 key = (case cut_slash key of None \<Rightarrow> [key] | Some (before, after) \<Rightarrow> [before, after])"

text \<open>
  \<open>deleteResource\<close>: a delete call that fails with \<open>NotFound\<close> counts as done. The
  type assertions on the existing object panic (\<open>None\<close>) when the object has another
  type. A key of another kind is recorded as deleted without any call.
\<close>

definition deleteResource ::
  "faults \<Rightarrow> Cluster \<Rightarrow> string \<Rightarrow> k8s_object \<Rightarrow> ReconcileResult
     \<Rightarrow> (err option \<times> Cluster \<times> ReconcileResult) option" where
  "deleteResource flt cl key resource result =
     (let parts = SplitN2 key
      in if length parts \<noteq> 2 then Some (Some (Msg (''invalid resource key: '' @ key)), cl, result)
         else
           (let resourceType = parts ! 0;
                resourceName = parts ! 1;
                deleted = (\<lambda>cl'. Some (None, cl',
                             result\<lparr> Deleted := Deleted result @
                               [\<lparr> ri_Type = resourceType, ri_Name = resourceName,
                                  ri_Namespace = '''', ri_WorkloadType = '''' \<rparr>] \<rparr>))
            in if resourceType = ''Deployment''
               then (case resource of
                       ObjDeployment deployment \<Rightarrow>
                         (case Deployments_Delete flt cl
                                 (om_Namespace (d_ObjectMeta deployment)) resourceName of
                            Inl e \<Rightarrow> (if \<not> IsNotFound e then Some (Some (ApiErr e), cl, result)
                                      else deleted cl)
                          | Inr cl' \<Rightarrow> deleted cl')
                     | _ \<Rightarrow> None)
               else if resourceType = ''Service''
               then (case resource of
                       ObjService service \<Rightarrow>
                         (case Services_Delete flt cl
                                 (om_Namespace (s_ObjectMeta service)) resourceName of
                            Inl e \<Rightarrow> (if \<not> IsNotFound e then Some (Some (ApiErr e), cl, result)
                                      else deleted cl)
                          | Inr cl' \<Rightarrow> deleted cl')
                     | _ \<Rightarrow> None)
               else if resourceType = ''ConfigMap''
               then (case resource of
                       ObjConfigMap configMap \<Rightarrow>
                         (case ConfigMaps_Delete flt cl
                                 (om_Namespace (cm_ObjectMeta configMap)) resourceName of
                            Inl e \<Rightarrow> (if \<not> IsNotFound e then Some (Some (ApiErr e), cl, result)
                                      else deleted cl)
                          | Inr cl' \<Rightarrow> deleted cl')
                     | _ \<Rightarrow> None)
               else deleted cl))"

text \<open>
  \<open>deleteUnwantedResources\<close> walks the map \<open>existing\<close>; \<open>deleteOrder\<close> lists keys in
  the order of the walk. It returns at the first failed deletion.
\<close>

fun deleteUnwantedResources ::
  "faults \<Rightarrow> (string \<rightharpoonup> k8s_object) \<Rightarrow> (string \<rightharpoonup> Resource) \<Rightarrow> string list
     \<Rightarrow> Cluster \<Rightarrow> ReconcileResult \<Rightarrow> (err option \<times> Cluster \<times> ReconcileResult) option" where
  "deleteUnwantedResources flt existing desired [] cl result = Some (None, cl, result)"
| "deleteUnwantedResources flt existing desired (existingKey # rest) cl result =
     (case existing existingKey of
        None \<Rightarrow> deleteUnwantedResources flt existing desired rest cl result
      | Some obj \<Rightarrow>
          (if desired existingKey \<noteq> None
           then deleteUnwantedResources flt existing desired rest cl result
           else (case deleteResource flt cl existingKey obj result of
                   None \<Rightarrow> None
                 | Some (Some e, cl', result') \<Rightarrow>
                     Some (Some (Wrapped (''failed to delete resource '' @ existingKey) e),
                           cl', result')
                 | Some (None, cl', result') \<Rightarrow>
                     deleteUnwantedResources flt existing desired rest cl' result')))"

text \<open>
  The two nested loops of \<open>ReconcileTopologyWorkloads\<close>. The state of the loops is
  the cluster, the result and the map of desired resources; \<open>nodeOrder\<close> lists the keys
  of \<open>renderResults\<close> in the order of the walk over that map.
\<close>

fun reconcileNodeResources ::
  "faults \<Rightarrow> string \<Rightarrow> WorkloadType \<Rightarrow> string \<Rightarrow> Resource list
     \<Rightarrow> Cluster \<times> ReconcileResult \<times> (string \<rightharpoonup> Resource)
     \<Rightarrow> (Cluster \<times> ReconcileResult \<times> (string \<rightharpoonup> Resource)) option" where
  "reconcileNodeResources flt nodeName workloadType namespace [] st = Some st"
| "reconcileNodeResources flt nodeName workloadType namespace (resource # rest)
       (cl, result, desiredResources) =
     (let key = getResourceKey resource;
          desiredResources' = desiredResources(key \<mapsto> resource)
      in case reconcileResource flt cl resource workloadType namespace result of
           None \<Rightarrow> None
         | Some (None, cl', result') \<Rightarrow>
             reconcileNodeResources flt nodeName workloadType namespace rest
               (cl', result', desiredResources')
         | Some (Some e, cl', result') \<Rightarrow>
             reconcileNodeResources flt nodeName workloadType namespace rest
               (cl',
                result'\<lparr> Errors := Errors result' @
                  [Wrapped (''failed to reconcile resource '' @ key @ '' for node '' @ nodeName)
                     e] \<rparr>,
                desiredResources'))"

fun reconcileNodes ::
  "faults \<Rightarrow> (string \<rightharpoonup> RenderResult) \<Rightarrow> string \<Rightarrow> string list
     \<Rightarrow> Cluster \<times> ReconcileResult \<times> (string \<rightharpoonup> Resource)
     \<Rightarrow> (Cluster \<times> ReconcileResult \<times> (string \<rightharpoonup> Resource)) option" where
  "reconcileNodes flt renderResults namespace [] st = Some st"
| "reconcileNodes flt renderResults namespace (nodeName # rest) st =
     (case renderResults nodeName of
        None \<Rightarrow> reconcileNodes flt renderResults namespace rest st
      | Some renderResult \<Rightarrow>
          (case reconcileNodeResources flt nodeName (rr_WorkloadType renderResult) namespace
                  (rr_Resources renderResult) st of
             None \<Rightarrow> None
           | Some st' \<Rightarrow> reconcileNodes flt renderResults namespace rest st'))"

datatype reconcile_outcome =
    Panicked
  | Failed err
  | Returned ReconcileResult Cluster

definition emptyReconcileResult :: ReconcileResult where
  "emptyReconcileResult = \<lparr> Created = [], Updated = [], Deleted = [], Errors = [] \<rparr>"

definition ReconcileTopologyWorkloads ::
  "faults \<Rightarrow> string list \<Rightarrow> string list \<Rightarrow> Cluster \<Rightarrow> Topology
     \<Rightarrow> (string \<rightharpoonup> RenderResult) \<Rightarrow> string \<Rightarrow> reconcile_outcome" where
  "ReconcileTopologyWorkloads flt nodeOrder deleteOrder cl topology renderResults namespace =
     (case getExistingResources flt cl topology namespace of
        Inl e \<Rightarrow> Failed (Wrapped ''failed to get existing resources'' e)
      | Inr existingResources \<Rightarrow>
          (case reconcileNodes flt renderResults namespace nodeOrder
                  (cl, emptyReconcileResult, Map.empty) of
             None \<Rightarrow> Panicked
           | Some (cl1, result1, desiredResources) \<Rightarrow>
               (case deleteUnwantedResources flt existingResources desiredResources deleteOrder
                       cl1 result1 of
                  None \<Rightarrow> Panicked
                | Some (None, cl2, result2) \<Rightarrow> Returned result2 cl2
                | Some (Some e, cl2, result2) \<Rightarrow>
                    Returned
                      (result2\<lparr> Errors := Errors result2 @
                         [Wrapped ''failed to delete unwanted resources'' e] \<rparr>)
                      cl2)))"

text \<open>
  A rendered resource whose payload has the dynamic type that its \<open>Type\<close> tag names.
\<close>

definition type_matches :: "Resource \<Rightarrow> bool" where
  "type_matches resource =
     (case Object resource of
        ObjDeployment d \<Rightarrow> Type resource = ''Deployment''
      | ObjService svc \<Rightarrow> Type resource = ''Service''
      | ObjConfigMap cm \<Rightarrow> Type resource = ''ConfigMap''
      | ObjUnstructured vm \<Rightarrow> Type resource = ''VirtualMachine''
      | ObjOther \<Rightarrow> False)"

section \<open>Notions for the statements about the reconciler\<close>

text \<open>
  The cluster seen as one partial map from kind, namespace and name to objects; the
  identity under which the reconciler reads and writes a payload.
\<close>

fun cluster_lookup :: "Cluster \<Rightarrow> kind \<times> string \<times> string \<Rightarrow> k8s_object option" where
  "cluster_lookup cl (KDeployment, ns, name) =
     map_option ObjDeployment (map_of (Deployments cl) (ns, name))"
| "cluster_lookup cl (KService, ns, name) =
     map_option ObjService (map_of (Services cl) (ns, name))"
| "cluster_lookup cl (KConfigMap, ns, name) =
     map_option ObjConfigMap (map_of (ConfigMaps cl) (ns, name))"
| "cluster_lookup cl (KVirtualMachine, ns, name) =
     map_option ObjUnstructured (map_of (VirtualMachines cl) (ns, name))"

fun object_ident :: "k8s_object \<Rightarrow> (kind \<times> string \<times> string) option" where
  "object_ident (ObjDeployment d) =
     Some (KDeployment, om_Namespace (d_ObjectMeta d), om_Name (d_ObjectMeta d))"
| "object_ident (ObjService svc) =
     Some (KService, om_Namespace (s_ObjectMeta svc), om_Name (s_ObjectMeta svc))"
| "object_ident (ObjConfigMap cm) =
     Some (KConfigMap, om_Namespace (cm_ObjectMeta cm), om_Name (cm_ObjectMeta cm))"
| "object_ident (ObjUnstructured vm) = Some (KVirtualMachine, GetNamespace vm, GetName vm)"
| "object_ident ObjOther = None"

text \<open>
  An existing object on which the comparison of its \<open>reconcile...\<close> function finds
  no difference from the desired one.
\<close>

fun up_to_date :: "k8s_object \<Rightarrow> k8s_object \<Rightarrow> bool" where
  "up_to_date (ObjDeployment existing) (ObjDeployment desired) =
     (\<not> needsDeploymentUpdate existing desired)"
| "up_to_date (ObjService existing) (ObjService desired) =
     (\<not> needsServiceUpdate existing desired)"
| "up_to_date (ObjConfigMap existing) (ObjConfigMap desired) =
     (cm_Data existing = cm_Data desired)"
| "up_to_date (ObjUnstructured existing) (ObjUnstructured desired) =
     (NestedMap (u_Object existing) [''spec''] = NestedMap (u_Object desired) [''spec''])"
| "up_to_date existing desired = False"

text \<open>No fault is injected into the get, create and update calls for an object.\<close>

definition fault_free :: "faults \<Rightarrow> k8s_object \<Rightarrow> bool" where
  "fault_free flt obj =
     (case object_ident obj of
        None \<Rightarrow> True
      | Some (k, ns, name) \<Rightarrow>
          flt VerbGet k ns name = None \<and> flt VerbCreate k ns name = None \<and>
          flt VerbUpdate k ns name = None)"

text \<open>
  The stores that \<open>getExistingResources\<close> lists hold each object once, under its
  own namespace and name.
\<close>

definition wf_cluster :: "Cluster \<Rightarrow> bool" where
  "wf_cluster cl =
     (distinct (map fst (Deployments cl)) \<and>
      list_all (\<lambda>((ns, name), d). om_Namespace (d_ObjectMeta d) = ns \<and>
                                   om_Name (d_ObjectMeta d) = name) (Deployments cl) \<and>
      distinct (map fst (Services cl)) \<and>
      list_all (\<lambda>((ns, name), svc). om_Namespace (s_ObjectMeta svc) = ns \<and>
                                     om_Name (s_ObjectMeta svc) = name) (Services cl) \<and>
      distinct (map fst (ConfigMaps cl)) \<and>
      list_all (\<lambda>((ns, name), cm). om_Namespace (cm_ObjectMeta cm) = ns \<and>
                                    om_Name (cm_ObjectMeta cm) = name) (ConfigMaps cl))"

text \<open>
  The resources that the two loops of \<open>ReconcileTopologyWorkloads\<close> visit, in order,
  each with its node name and the workload type of its node.
\<close>

definition rendered ::
  "(string \<rightharpoonup> RenderResult) \<Rightarrow> string list \<Rightarrow> (string \<times> WorkloadType \<times> Resource) list" where
  "rendered renderResults nodeOrder =
     concat (map (\<lambda>nodeName.
                    case renderResults nodeName of
                      None \<Rightarrow> []
                    | Some renderResult \<Rightarrow>
                        map (\<lambda>resource. (nodeName, rr_WorkloadType renderResult, resource))
                            (rr_Resources renderResult))
                 nodeOrder)"

text \<open>
  The entry that a \<open>reconcile...\<close> function appends to \<open>Created\<close> or \<open>Updated\<close>
  for a resource.
\<close>

definition resource_info :: "Resource \<Rightarrow> WorkloadType \<Rightarrow> ResourceInfo" where
  "resource_info resource workloadType =
     (case object_ident (Object resource) of
        None \<Rightarrow> \<lparr> ri_Type = Type resource, ri_Name = '''', ri_Namespace = '''',
                  ri_WorkloadType = workloadType \<rparr>
      | Some (k, ns, name) \<Rightarrow>
          \<lparr> ri_Type = Type resource, ri_Name = name, ri_Namespace = ns,
            ri_WorkloadType = workloadType \<rparr>)"

text \<open>
  What one call of \<open>reconcileResource\<close> on a well-typed resource does: it touches
  no other object, leaves \<open>Deleted\<close> and \<open>Errors\<close> as they are, and either fails
  under an injected fault without any change, or finds the object up to date, or
  creates it, or updates it; after a creation or an update the stored object is up to
  date.
\<close>

definition step_spec ::
  "faults \<Rightarrow> Cluster \<Rightarrow> Resource \<Rightarrow> WorkloadType \<Rightarrow> ReconcileResult
     \<Rightarrow> err option \<Rightarrow> Cluster \<Rightarrow> ReconcileResult \<Rightarrow> bool" where
  "step_spec flt cl r wt res e cl' res' =
     (\<exists>ident. object_ident (Object r) = Some ident \<and>
        (\<forall>ident'. ident' \<noteq> ident \<longrightarrow> cluster_lookup cl' ident' = cluster_lookup cl ident') \<and>
        Deleted res' = Deleted res \<and> Errors res' = Errors res \<and>
        (wf_cluster cl \<longrightarrow> wf_cluster cl') \<and>
        ((e \<noteq> None \<and> cl' = cl \<and> res' = res \<and> \<not> fault_free flt (Object r)) \<or>
         (e = None \<and> cl' = cl \<and> res' = res \<and>
          (\<exists>ob. cluster_lookup cl ident = Some ob \<and> up_to_date ob (Object r))) \<or>
         (e = None \<and> cluster_lookup cl ident = None \<and>
          (\<exists>ob'. cluster_lookup cl' ident = Some ob' \<and> up_to_date ob' (Object r)) \<and>
          Created res' = Created res @ [resource_info r wt] \<and> Updated res' = Updated res) \<or>
         (e = None \<and> cluster_lookup cl ident \<noteq> None \<and>
          (\<exists>ob'. cluster_lookup cl' ident = Some ob' \<and> up_to_date ob' (Object r)) \<and>
          Updated res' = Updated res @ [resource_info r wt] \<and> Created res' = Created res)))"

text \<open>Two calls in a row, the second on the cluster that the first one leaves.\<close>

definition reconcile_twice ::
  "faults \<Rightarrow> string list \<Rightarrow> string list \<Rightarrow> string list \<Rightarrow> string list \<Rightarrow> Cluster
     \<Rightarrow> Topology \<Rightarrow> (string \<rightharpoonup> RenderResult) \<Rightarrow> string \<Rightarrow> reconcile_outcome" where
  "reconcile_twice flt nodeOrder1 deleteOrder1 nodeOrder2 deleteOrder2 cl topology renderResults
       namespace =
     (case ReconcileTopologyWorkloads flt nodeOrder1 deleteOrder1 cl topology renderResults
             namespace of
        Returned result1 cl1 \<Rightarrow>
          ReconcileTopologyWorkloads flt nodeOrder2 deleteOrder2 cl1 topology renderResults
            namespace
      | other \<Rightarrow> other)"

fun returned_result :: "reconcile_outcome \<Rightarrow> ReconcileResult option" where
  "returned_result (Returned result cl) = Some result"
| "returned_result other = None"

section \<open>Example inputs\<close>

abbreviation example_names :: EnvNames where
  "example_names \<equiv>
     \<lparr> ExecutionModeEnv = ''EXECUTION_MODE'', NetworkingModeEnv = ''NETWORKING_MODE'' \<rparr>"

abbreviation example_topology :: Topology where
  "example_topology \<equiv>
     \<lparr> t_Name = ''lab'', ExecutionMode = '''', CNI = '''', NodeOverrides = Map.empty \<rparr>"

abbreviation example_container_node :: NodeConfig where
  "example_container_node \<equiv>
     \<lparr> Name = ''sw1'', NodeImage = ''ceos:latest'', Kind = ''ceos'', Labels = Map.empty,
       Annotations = Map.empty, Environment = Map.empty, Interfaces = [], Resources = None,
       StartupConfig = '''', Files = Map.empty \<rparr>"

abbreviation example_vm_node :: NodeConfig where
  "example_vm_node \<equiv>
     \<lparr> Name = ''fw1'', NodeImage = ''vyos/vyos:1.4'', Kind = ''vyos'', Labels = Map.empty,
       Annotations = Map.empty, Environment = Map.empty,
       Interfaces = [\<lparr> if_Name = ''eth1'', if_Type = ''ethernet'', if_Endpoint = None \<rparr>],
       Resources = Some \<lparr> Limits = Map.empty, Requests = [''memory'' \<mapsto> ''8Gi''] \<rparr>,
       StartupConfig = ''set system host-name fw1'', Files = Map.empty \<rparr>"

abbreviation example_env_definition :: NodeDefinition where
  "example_env_definition \<equiv>
     \<lparr> nd_Image = ''alpine:3.19'', nd_Kind = ''linux'',
       nd_Env = [''A'' \<mapsto> ''1'', ''B'' \<mapsto> ''2''], nd_Labels = Map.empty,
       nd_StartupConfig = '''' \<rparr>"




abbreviation example_node_x :: "string \<Rightarrow> NodeConfig" where
  "example_node_x img \<equiv>
     \<lparr> Name = ''x'', NodeImage = img, Kind = ''linux'', Labels = Map.empty,
       Annotations = Map.empty, Environment = Map.empty, Interfaces = [], Resources = None,
       StartupConfig = '''', Files = Map.empty \<rparr>"

abbreviation example_conflicting_results :: "string \<rightharpoonup> RenderResult" where
  "example_conflicting_results \<equiv>
     [ ''a'' \<mapsto> \<lparr> rr_WorkloadType = WorkloadTypeContainer,
                   rr_Resources =
                     [\<lparr> Type = ''Deployment'',
                        Object = ObjDeployment
                          (buildDeployment [] (example_node_x ''img:1'') example_topology
                             ''default''),
                        Dependencies = [] \<rparr>],
                   rr_NodeConfig = example_node_x ''img:1'' \<rparr>,
       ''b'' \<mapsto> \<lparr> rr_WorkloadType = WorkloadTypeContainer,
                   rr_Resources =
                     [\<lparr> Type = ''Deployment'',
                        Object = ObjDeployment
                          (buildDeployment [] (example_node_x ''img:2'') example_topology
                             ''default''),
                        Dependencies = [] \<rparr>],
                   rr_NodeConfig = example_node_x ''img:2'' \<rparr> ]"

section \<open>Properties of the string functions\<close>

lemma ToLower_char_add:
  "ToLower_char c =
     (if (65::nat) \<le> of_char c \<and> of_char c \<le> (90::nat)
      then char_of (of_char c + (32::nat)) else c)"
proof (cases c)
  case (Char b0 b1 b2 b3 b4 b5 b6 b7)
  then show ?thesis
    by (cases b0; cases b1; cases b2; cases b3; cases b4; cases b5; cases b6; cases b7)
       (simp_all add: ToLower_char_def char_of_def bit_0)
qed

lemma ToLower_char_bits:
  "ToLower_char (Char b0 b1 b2 b3 b4 b5 b6 b7) =
     (if \<not> b7 \<and> b6 \<and> \<not> b5 \<and> (b0 \<or> b1 \<or> b2 \<or> b3 \<or> b4) \<and>
         \<not> (b4 \<and> b3 \<and> (b2 \<or> (b1 \<and> b0)))
      then Char b0 b1 b2 b3 b4 True b6 b7
      else Char b0 b1 b2 b3 b4 b5 b6 b7)"
  by (cases b0; cases b1; cases b2; cases b3; cases b4; cases b5; cases b6; cases b7)
     (simp_all add: ToLower_char_def)

lemma HasPrefix_prefix: "HasPrefix s pre \<longleftrightarrow> prefix pre s"
  by (induction s pre rule: HasPrefix.induct) auto

lemma Contains_sublist: "Contains s substr \<longleftrightarrow> sublist substr s"
proof (induction s)
  case Nil
  then show ?case by auto
next
  case (Cons c s)
  then show ?case by (simp add: sublist_Cons_right HasPrefix_prefix)
qed

section \<open>Properties of the classifier\<close>

text \<open>
  Claim C2. When the environment of a node maps \<open>EXECUTION_MODE\<close> to a value that
  lower-cases to \<open>vm\<close> or \<open>virtual-machine\<close>, \<open>DetermineWorkloadType\<close> returns
  \<open>vm\<close>; when it lower-cases to \<open>container\<close> or \<open>pod\<close>, it returns \<open>container\<close>.
  This holds for every classifier (every pattern table and every content of the two
  force registries) and every image, kind and name of the node.
\<close>

theorem directive_wins:
  assumes "Environment config ''EXECUTION_MODE'' = Some execMode"
  shows "(ToLower execMode \<in> {''vm'', ''virtual-machine''} \<longrightarrow>
            DetermineWorkloadType c config = WorkloadTypeVM) \<and>
         (ToLower execMode \<in> {''container'', ''pod''} \<longrightarrow>
            DetermineWorkloadType c config = WorkloadTypeContainer)"
  using assms by (auto simp: DetermineWorkloadType_def)

theorem directive_wins_witness:
  "DetermineWorkloadType (ForceContainer NewWorkloadClassifier ''x'')
     \<lparr> Name = ''x'', NodeImage = ''ceos:latest'', Kind = ''ceos'', Labels = Map.empty,
       Annotations = Map.empty, Environment = [''EXECUTION_MODE'' \<mapsto> ''VM''],
       Interfaces = [], Resources = None, StartupConfig = '''', Files = Map.empty \<rparr>
     = WorkloadTypeVM \<and>
   DetermineWorkloadType (ForceVM NewWorkloadClassifier ''fw1'')
     \<lparr> Name = ''fw1'', NodeImage = ''vyos/vyos:1.4'', Kind = ''vyos'', Labels = Map.empty,
       Annotations = Map.empty, Environment = [''EXECUTION_MODE'' \<mapsto> ''Pod''],
       Interfaces = [], Resources = None, StartupConfig = '''', Files = Map.empty \<rparr>
     = WorkloadTypeContainer"
  using
    directive_wins [of
      "\<lparr> Name = ''x'', NodeImage = ''ceos:latest'', Kind = ''ceos'', Labels = Map.empty,
         Annotations = Map.empty, Environment = [''EXECUTION_MODE'' \<mapsto> ''VM''],
         Interfaces = [], Resources = None, StartupConfig = '''', Files = Map.empty \<rparr>"
      "''VM''" "ForceContainer NewWorkloadClassifier ''x''"]
    directive_wins [of
      "\<lparr> Name = ''fw1'', NodeImage = ''vyos/vyos:1.4'', Kind = ''vyos'', Labels = Map.empty,
         Annotations = Map.empty, Environment = [''EXECUTION_MODE'' \<mapsto> ''Pod''],
         Interfaces = [], Resources = None, StartupConfig = '''', Files = Map.empty \<rparr>"
      "''Pod''" "ForceVM NewWorkloadClassifier ''fw1''"]
  by (simp add: ToLower_def ToLower_char_bits)









lemma apply_force_call_other:
  "force_target q \<noteq> n \<Longrightarrow>
   forceVM (apply_force_call c q) n = forceVM c n \<and>
   forceContainer (apply_force_call c q) n = forceContainer c n"
  by (cases q) (simp_all add: ForceVM_def ForceContainer_def)

lemma foldl_force_other:
  "\<forall>q\<in>set post. force_target q \<noteq> n \<Longrightarrow>
   forceVM (foldl apply_force_call c post) n = forceVM c n \<and>
   forceContainer (foldl apply_force_call c post) n = forceContainer c n"
  by (induction post arbitrary: c) (simp_all add: apply_force_call_other)

lemma apply_force_call_exclusive:
  "dom (forceVM c) \<inter> dom (forceContainer c) = {} \<Longrightarrow>
   dom (forceVM (apply_force_call c q)) \<inter> dom (forceContainer (apply_force_call c q)) = {}"
  by (cases q) (auto simp: ForceVM_def ForceContainer_def)

lemma foldl_force_exclusive:
  "dom (forceVM c) \<inter> dom (forceContainer c) = {} \<Longrightarrow>
   dom (forceVM (foldl apply_force_call c calls)) \<inter>
   dom (forceContainer (foldl apply_force_call c calls)) = {}"
  by (induction calls arbitrary: c) (simp_all add: apply_force_call_exclusive)

lemma apply_force_call_sets:
  "go_index (forceVM (apply_force_call c call)) (force_target call) =
     (force_verdict call = WorkloadTypeVM) \<and>
   go_index (forceContainer (apply_force_call c call)) (force_target call) =
     (force_verdict call = WorkloadTypeContainer)"
  by (cases call)
    (simp_all add: ForceVM_def ForceContainer_def go_index_def WorkloadTypeVM_def
      WorkloadTypeContainer_def)

text \<open>
  Claim C8. Starting from a classifier whose two force registries share no node (as
  the registries of a new classifier, which are empty), after any sequence of
  \<open>ForceVM\<close> and \<open>ForceContainer\<close> calls no node is in both registries. If \<open>call\<close> is
  the last call of the sequence that names the node, and the node has no
  \<open>EXECUTION_MODE\<close> directive, \<open>DetermineWorkloadType\<close> returns the type that \<open>call\<close>
  forces: \<open>vm\<close> for \<open>ForceVM\<close>, \<open>container\<close> for \<open>ForceContainer\<close>.
\<close>

theorem force_last_write_wins:
  assumes "dom (forceVM c0) \<inter> dom (forceContainer c0) = {}"
  shows "dom (forceVM (apply_force_calls c0 calls)) \<inter>
           dom (forceContainer (apply_force_calls c0 calls)) = {} \<and>
         (calls = pre @ call # post \<and> force_target call = Name config \<and>
          (\<forall>q\<in>set post. force_target q \<noteq> Name config) \<and>
          Environment config ''EXECUTION_MODE'' = None
          \<longrightarrow> DetermineWorkloadType (apply_force_calls c0 calls) config = force_verdict call)"
proof (intro conjI impI)
  show "dom (forceVM (apply_force_calls c0 calls)) \<inter>
           dom (forceContainer (apply_force_calls c0 calls)) = {}"
    unfolding apply_force_calls_def using assms by (rule foldl_force_exclusive)
next
  assume h: "calls = pre @ call # post \<and> force_target call = Name config \<and>
          (\<forall>q\<in>set post. force_target q \<noteq> Name config) \<and>
          Environment config ''EXECUTION_MODE'' = None"
  define c1 where "c1 = apply_force_call (foldl apply_force_call c0 pre) call"
  have run: "apply_force_calls c0 calls = foldl apply_force_call c1 post"
    using h by (simp add: apply_force_calls_def c1_def)
  have keep: "forceVM (foldl apply_force_call c1 post) (Name config) = forceVM c1 (Name config)"
    "forceContainer (foldl apply_force_call c1 post) (Name config) =
       forceContainer c1 (Name config)"
    using h foldl_force_other [of post "Name config" c1] by simp_all
  have set1: "go_index (forceVM c1) (Name config) = (force_verdict call = WorkloadTypeVM)"
    "go_index (forceContainer c1) (Name config) = (force_verdict call = WorkloadTypeContainer)"
    using h apply_force_call_sets [of "foldl apply_force_call c0 pre" call]
    by (simp_all add: c1_def)
  have idx: "go_index (forceVM (apply_force_calls c0 calls)) (Name config) =
               (force_verdict call = WorkloadTypeVM)"
    "go_index (forceContainer (apply_force_calls c0 calls)) (Name config) =
               (force_verdict call = WorkloadTypeContainer)"
    using keep set1 by (simp_all add: run go_index_def)
  have two: "force_verdict call = WorkloadTypeVM \<or> force_verdict call = WorkloadTypeContainer"
    by (cases call) simp_all
  show "DetermineWorkloadType (apply_force_calls c0 calls) config = force_verdict call"
    using h idx two
    by (auto simp: DetermineWorkloadType_def classifyWithoutDirective_def)
qed

theorem force_last_write_wins_witness:
  "dom (forceVM (apply_force_calls NewWorkloadClassifier
          [CallForceVM ''fw1'', CallForceContainer ''other'', CallForceContainer ''fw1'',
           CallForceVM ''other''])) \<inter>
   dom (forceContainer (apply_force_calls NewWorkloadClassifier
          [CallForceVM ''fw1'', CallForceContainer ''other'', CallForceContainer ''fw1'',
           CallForceVM ''other''])) = {} \<and>
   DetermineWorkloadType
     (apply_force_calls NewWorkloadClassifier
        [CallForceVM ''fw1'', CallForceContainer ''other'', CallForceContainer ''fw1'',
         CallForceVM ''other''])
     \<lparr> Name = ''fw1'', NodeImage = ''vyos/vyos:1.4'', Kind = ''vyos'', Labels = Map.empty,
       Annotations = Map.empty, Environment = Map.empty, Interfaces = [], Resources = None,
       StartupConfig = '''', Files = Map.empty \<rparr>
     = WorkloadTypeContainer"
  using force_last_write_wins [of NewWorkloadClassifier
      "[CallForceVM ''fw1'', CallForceContainer ''other'', CallForceContainer ''fw1'',
        CallForceVM ''other'']"
      "[CallForceVM ''fw1'', CallForceContainer ''other'']" "CallForceContainer ''fw1''"
      "[CallForceVM ''other'']"
      "\<lparr> Name = ''fw1'', NodeImage = ''vyos/vyos:1.4'', Kind = ''vyos'', Labels = Map.empty,
       Annotations = Map.empty, Environment = Map.empty, Interfaces = [], Resources = None,
       StartupConfig = '''', Files = Map.empty \<rparr>"]
  by (simp add: NewWorkloadClassifier_def)



section \<open>Properties of the renderer\<close>

lemmas classify_defs = DetermineWorkloadType_def classifyWithoutDirective_def classifyByImage_def
  classifyByKind_def classifyByImageCharacteristics_def
  NewWorkloadClassifier_def go_index_def ToLower_def ToLower_char_bits vmIndicators_def
  containerIndicators_def vmKinds_def containerKinds_def vmImageFormats_def vmRegistries_def
  containerRegistries_def WorkloadTypeContainer_def WorkloadTypeVM_def

lemma buildDeployment_fields:
  "ds_Replicas (d_Spec (buildDeployment envOrder config topology namespace)) = Some 1"
  "st_Type (ds_Strategy (d_Spec (buildDeployment envOrder config topology namespace))) = ''''"
  "map (\<lambda>c. map cp_ContainerPort (ct_Ports c))
     (ps_Containers (pt_Spec (ds_Template (d_Spec
        (buildDeployment envOrder config topology namespace))))) = [[22, 830, 57400]]"
  "map (\<lambda>c. map_option (\<lambda>sc. map_option cap_Add (sc_Capabilities sc)) (ct_SecurityContext c))
     (ps_Containers (pt_Spec (ds_Template (d_Spec
        (buildDeployment envOrder config topology namespace))))) = [Some (Some [''NET_ADMIN''])]"
  by (simp_all add: buildDeployment_def Let_def)

text \<open>
  Claim C4 (rendering is deterministic, the order of the env-var list included) fails
  on the code. The node \<open>n1\<close> has the environment \<open>A=1, B=2\<close>. Both \<open>[A, B]\<close> and
  \<open>[B, A]\<close> are orders in which the \<open>range\<close> loop of \<open>buildDeployment\<close> may walk that
  map; the two runs of \<open>RenderTopologyWorkloads\<close> give different results, and
  \<open>needsDeploymentUpdate\<close> reports a difference between the two rendered Deployments.
\<close>

theorem env_order_divergence:
  "valid_range_order [''A'', ''B''] (nd_Env example_env_definition) \<and>
   valid_range_order [''B'', ''A''] (nd_Env example_env_definition) \<and>
   RenderTopologyWorkloads example_names NewWorkloadClassifier [''n1'']
       (\<lambda>nodeName. [''A'', ''B'']) example_topology [''n1'' \<mapsto> example_env_definition]
       ''default'' \<noteq>
   RenderTopologyWorkloads example_names NewWorkloadClassifier [''n1'']
       (\<lambda>nodeName. [''B'', ''A'']) example_topology [''n1'' \<mapsto> example_env_definition]
       ''default'' \<and>
   needsDeploymentUpdate
     (buildDeployment [''A'', ''B'']
        (buildNodeConfig example_names ''n1'' example_env_definition example_topology)
        example_topology ''default'')
     (buildDeployment [''B'', ''A'']
        (buildNodeConfig example_names ''n1'' example_env_definition example_topology)
        example_topology ''default'')"
proof (intro conjI)
  show "valid_range_order [''A'', ''B''] (nd_Env example_env_definition)"
    by (auto simp: valid_range_order_def)
  show "valid_range_order [''B'', ''A''] (nd_Env example_env_definition)"
    by (auto simp: valid_range_order_def)
  let ?nc = "buildNodeConfig example_names ''n1'' example_env_definition example_topology"
  have nc: "Environment ?nc = [''A'' \<mapsto> ''1'', ''B'' \<mapsto> ''2'']"
    "NodeImage ?nc = ''alpine:3.19''" "Name ?nc = ''n1''" "Kind ?nc = ''linux''"
    by (simp_all add: buildNodeConfig_def)
  have wt: "DetermineWorkloadType NewWorkloadClassifier ?nc = WorkloadTypeContainer"
    by (simp add: nc classify_defs)
  have envs:
    "ct_Env (hd (ps_Containers (pt_Spec (ds_Template (d_Spec
        (buildDeployment [''A'', ''B''] ?nc example_topology ''default''))))))
     = [\<lparr> ev_Name = ''A'', ev_Value = ''1'' \<rparr>, \<lparr> ev_Name = ''B'', ev_Value = ''2'' \<rparr>]"
    "ct_Env (hd (ps_Containers (pt_Spec (ds_Template (d_Spec
        (buildDeployment [''B'', ''A''] ?nc example_topology ''default''))))))
     = [\<lparr> ev_Name = ''B'', ev_Value = ''2'' \<rparr>, \<lparr> ev_Name = ''A'', ev_Value = ''1'' \<rparr>]"
    by (simp_all add: buildDeployment_def Let_def nc)
  have neq: "buildDeployment [''A'', ''B''] ?nc example_topology ''default'' \<noteq>
             buildDeployment [''B'', ''A''] ?nc example_topology ''default''"
    using envs by auto
  show "needsDeploymentUpdate
          (buildDeployment [''A'', ''B''] ?nc example_topology ''default'')
          (buildDeployment [''B'', ''A''] ?nc example_topology ''default'')"
    by (simp add: needsDeploymentUpdate_def buildDeployment_def Let_def nc)
  show "RenderTopologyWorkloads example_names NewWorkloadClassifier [''n1'']
          (\<lambda>nodeName. [''A'', ''B'']) example_topology [''n1'' \<mapsto> example_env_definition]
          ''default'' \<noteq>
        RenderTopologyWorkloads example_names NewWorkloadClassifier [''n1'']
          (\<lambda>nodeName. [''B'', ''A'']) example_topology [''n1'' \<mapsto> example_env_definition]
          ''default''"
  proof
    assume eq: "RenderTopologyWorkloads example_names NewWorkloadClassifier [''n1'']
          (\<lambda>nodeName. [''A'', ''B'']) example_topology [''n1'' \<mapsto> example_env_definition]
          ''default'' =
        RenderTopologyWorkloads example_names NewWorkloadClassifier [''n1'']
          (\<lambda>nodeName. [''B'', ''A'']) example_topology [''n1'' \<mapsto> example_env_definition]
          ''default''"
    have "buildDeployment [''A'', ''B''] ?nc example_topology ''default'' =
          buildDeployment [''B'', ''A''] ?nc example_topology ''default''"
      using eq wt
      by (simp add: RenderTopologyWorkloads_def renderNodeResources_def Let_def
          renderContainerResources_def fun_eq_iff split: if_splits)
    then show False using neq by blast
  qed
qed

text \<open>
  Claim C5 fails on the code in one point. The node \<open>sw1\<close> (image \<open>ceos:latest\<close>) is
  classified as a container and its first rendered resource is the Deployment of
  \<open>buildDeployment\<close>. That Deployment has one replica, the container ports 22, 830 and
  57400 and the capability \<open>NET_ADMIN\<close>, but its update strategy is the zero value
  (the composite literal sets no \<open>Strategy\<close>), not \<open>Recreate\<close>.
\<close>

theorem container_deployment_strategy_unset:
  "DetermineWorkloadType NewWorkloadClassifier example_container_node = WorkloadTypeContainer \<and>
   (\<exists>rest. renderNodeResources [] example_container_node WorkloadTypeContainer
              example_topology ''default'' =
            Inr (\<lparr> Type = ''Deployment'',
                    Object = ObjDeployment
                      (buildDeployment [] example_container_node example_topology ''default''),
                    Dependencies = [] \<rparr> # rest)) \<and>
   ds_Replicas (d_Spec (buildDeployment [] example_container_node example_topology ''default''))
     = Some 1 \<and>
   map (\<lambda>c. map cp_ContainerPort (ct_Ports c))
     (ps_Containers (pt_Spec (ds_Template (d_Spec
        (buildDeployment [] example_container_node example_topology ''default'')))))
     = [[22, 830, 57400]] \<and>
   map (\<lambda>c. map_option (\<lambda>sc. map_option cap_Add (sc_Capabilities sc)) (ct_SecurityContext c))
     (ps_Containers (pt_Spec (ds_Template (d_Spec
        (buildDeployment [] example_container_node example_topology ''default'')))))
     = [Some (Some [''NET_ADMIN''])] \<and>
   st_Type (ds_Strategy (d_Spec
      (buildDeployment [] example_container_node example_topology ''default''))) = '''' \<and>
   st_Type (ds_Strategy (d_Spec
      (buildDeployment [] example_container_node example_topology ''default'')))
     \<noteq> RecreateDeploymentStrategyType"
proof (intro conjI)
  show "DetermineWorkloadType NewWorkloadClassifier example_container_node
          = WorkloadTypeContainer"
    by (simp add: classify_defs)
  show "\<exists>rest. renderNodeResources [] example_container_node WorkloadTypeContainer
              example_topology ''default'' =
            Inr (\<lparr> Type = ''Deployment'',
                    Object = ObjDeployment
                      (buildDeployment [] example_container_node example_topology ''default''),
                    Dependencies = [] \<rparr> # rest)"
    by (simp add: renderNodeResources_def renderContainerResources_def Let_def)
qed (simp_all add: buildDeployment_fields RecreateDeploymentStrategyType_def)

text \<open>
  Claim C6 fails on the renderer. The node \<open>fw1\<close> (image \<open>vyos/vyos:1.4\<close>, kind
  \<open>vyos\<close>, one link interface, a startup configuration, a memory request of \<open>8Gi\<close>) is
  classified as a VM. The manifest of \<open>buildVirtualMachine\<close>, which
  \<open>RenderTopologyWorkloads\<close> emits, has the container-disk volume only, the default
  interface only and the fixed requests \<open>1Gi\<close> and \<open>1\<close>. The manifest of
  \<open>renderVirtualMachine\<close> of the VM executor, for the same node, has the cloud-init
  volume, the interface \<open>net1\<close> and the requests \<open>8Gi\<close> (the node's own) and \<open>2\<close> (from
  the kind).
\<close>

theorem rendered_vm_is_basic:
  "DetermineWorkloadType NewWorkloadClassifier example_vm_node = WorkloadTypeVM \<and>
   NestedFieldNoCopy
       (GMap (u_Object (buildVirtualMachine example_vm_node example_topology ''default'')))
       [''spec'', ''template'', ''spec'', ''volumes''] =
     Some (GList
       [ GObject [ (''name'', GString ''containerdisk''),
                   (''containerDisk'', GObject [ (''image'', GString ''vyos/vyos:1.4'') ]) ] ]) \<and>
   NestedFieldNoCopy
       (GMap (u_Object (buildVirtualMachine example_vm_node example_topology ''default'')))
       [''spec'', ''template'', ''spec'', ''domain'', ''devices'', ''interfaces''] =
     Some (GList [ GObject [ (''name'', GString ''default''), (''masquerade'', GObject []) ] ]) \<and>
   NestedFieldNoCopy
       (GMap (u_Object (buildVirtualMachine example_vm_node example_topology ''default'')))
       [''spec'', ''template'', ''spec'', ''domain'', ''resources'', ''requests''] =
     Some (GObject [ (''memory'', GString ''1Gi''), (''cpu'', GString ''1'') ]) \<and>
   NestedFieldNoCopy (GMap (renderVirtualMachine ''default'' example_vm_node))
       [''spec'', ''template'', ''spec'', ''volumes''] =
     Some (GList
       [ GObject [ (''name'', GString ''containerdisk''),
                   (''containerDisk'', GObject [ (''image'', GString ''vyos/vyos:1.4'') ]) ],
         GObject [ (''name'', GString ''cloudinitdisk''),
                   (''cloudInitNoCloud'', GObject
                      [ (''userData'',
                         GString (generateCloudInitUserData example_vm_node)) ]) ] ]) \<and>
   NestedFieldNoCopy (GMap (renderVirtualMachine ''default'' example_vm_node))
       [''spec'', ''template'', ''spec'', ''domain'', ''devices'', ''interfaces''] =
     Some (GList [ GObject [ (''name'', GString ''default''), (''masquerade'', GObject []) ],
                   GObject [ (''name'', GString ''net1''), (''bridge'', GObject []) ] ]) \<and>
   NestedFieldNoCopy (GMap (renderVirtualMachine ''default'' example_vm_node))
       [''spec'', ''template'', ''spec'', ''domain'', ''resources'', ''requests''] =
     Some (GObject [ (''memory'', GString ''8Gi''), (''cpu'', GString ''2'') ])"
proof (intro conjI)
  show "DetermineWorkloadType NewWorkloadClassifier example_vm_node = WorkloadTypeVM"
    by (simp add: classify_defs)
qed (simp_all add: buildVirtualMachine_def renderVirtualMachine_def GObject_def Let_def
      index_ResourceList_def IsZero_def zeroQuantity_def ResourceMemory_def ResourceCPU_def
      Itoa.simps)






section \<open>Properties of the reconciler\<close>


lemma wf_store_iff:
  "distinct (map fst s) \<Longrightarrow>
   list_all (\<lambda>(k, obj). f obj = k) s \<longleftrightarrow> (\<forall>k obj. map_of s k = Some obj \<longrightarrow> f obj = k)"
  by (auto simp: list_all_iff dest: map_of_SomeD)

lemma GetName_SetResourceVersion [simp]:
  "GetName (SetResourceVersion rv u) = GetName u"
  by (auto simp: GetName_def SetResourceVersion_def NestedString_def
      split: option.splits go_value.splits)

lemma GetNamespace_SetResourceVersion [simp]:
  "GetNamespace (SetResourceVersion rv u) = GetNamespace u"
  by (auto simp: GetNamespace_def SetResourceVersion_def NestedString_def
      split: option.splits go_value.splits)

lemma NestedMap_spec_SetResourceVersion [simp]:
  "NestedMap (u_Object (SetResourceVersion rv u)) [''spec''] = NestedMap (u_Object u) [''spec'']"
  by (auto simp: SetResourceVersion_def NestedMap_def
      split: option.splits go_value.splits)

lemma GetResourceVersion_SetResourceVersion:
  "GetResourceVersion (SetResourceVersion rv u) = rv \<or>
   GetResourceVersion (SetResourceVersion rv u) = ''''"
  by (auto simp: GetResourceVersion_def SetResourceVersion_def NestedString_def
      split: option.splits go_value.splits)




lemma needsDeploymentUpdate_refl [simp]: "\<not> needsDeploymentUpdate d d"
  by (simp add: needsDeploymentUpdate_def)

lemma needsDeploymentUpdate_stamp [simp]:
  "needsDeploymentUpdate (d\<lparr> d_ObjectMeta := (d_ObjectMeta d)\<lparr> om_ResourceVersion := rv \<rparr> \<rparr>) d'
     = needsDeploymentUpdate d d'"
  by (simp add: needsDeploymentUpdate_def)

lemma needsServiceUpdate_refl [simp]: "\<not> needsServiceUpdate svc svc"
  by (simp add: needsServiceUpdate_def)

lemma needsServiceUpdate_stamp [simp]:
  "needsServiceUpdate
     (svc\<lparr> s_ObjectMeta := m, s_Spec := (s_Spec svc)\<lparr> ss_ClusterIP := ip \<rparr> \<rparr>) svc'
     = needsServiceUpdate svc svc'"
  "needsServiceUpdate (svc\<lparr> s_ObjectMeta := m \<rparr>) svc' = needsServiceUpdate svc svc'"
  "needsServiceUpdate (svc\<lparr> s_Spec := (s_Spec svc)\<lparr> ss_ClusterIP := ip \<rparr> \<rparr>) svc'
     = needsServiceUpdate svc svc'"
  by (simp_all add: needsServiceUpdate_def)

lemma reconcileDeployment_effect:
  assumes "reconcileDeployment flt cl obj wt res = (e, cl', res')"
  shows "Services cl' = Services cl \<and> ConfigMaps cl' = ConfigMaps cl \<and> VirtualMachines cl' = VirtualMachines cl"
    and "Deleted res' = Deleted res \<and> Errors res' = Errors res"
    and "(\<forall>k'. k' \<noteq> (om_Namespace (d_ObjectMeta obj), om_Name (d_ObjectMeta obj)) \<longrightarrow>
               map_of (Deployments cl') k' = map_of (Deployments cl) k')"
    and "(distinct (map fst (Deployments cl)) \<longrightarrow> distinct (map fst (Deployments cl')))"
    and "((\<forall>k ob. map_of (Deployments cl) k = Some ob \<longrightarrow> (\<lambda>x. (om_Namespace (d_ObjectMeta x), om_Name (d_ObjectMeta x))) ob = k) \<longrightarrow>
          (\<forall>k ob. map_of (Deployments cl') k = Some ob \<longrightarrow> (\<lambda>x. (om_Namespace (d_ObjectMeta x), om_Name (d_ObjectMeta x))) ob = k))"
  using assms
  by (auto simp: reconcileDeployment_def Let_def Deployments_Get_def Deployments_Create_def
      Deployments_Update_def store_get_def store_create_def store_update_def
      update_conv' distinct_update
      split: option.splits sum.splits if_splits)

lemma reconcileDeployment_cases:
  assumes "reconcileDeployment flt cl obj wt res = (e, cl', res')"
  shows "(e \<noteq> None \<and> cl' = cl \<and> res' = res \<and>
          (flt VerbGet KDeployment (om_Namespace (d_ObjectMeta obj)) (om_Name (d_ObjectMeta obj)) \<noteq> None \<or>
           flt VerbCreate KDeployment (om_Namespace (d_ObjectMeta obj)) (om_Name (d_ObjectMeta obj)) \<noteq> None \<or>
           flt VerbUpdate KDeployment (om_Namespace (d_ObjectMeta obj)) (om_Name (d_ObjectMeta obj)) \<noteq> None)) \<or>
         (e = None \<and> cl' = cl \<and> res' = res \<and>
          (\<exists>ob. map_of (Deployments cl) (om_Namespace (d_ObjectMeta obj), om_Name (d_ObjectMeta obj)) = Some ob \<and> (\<lambda>x y. \<not> needsDeploymentUpdate x y) ob obj)) \<or>
         (e = None \<and> map_of (Deployments cl) (om_Namespace (d_ObjectMeta obj), om_Name (d_ObjectMeta obj)) = None \<and>
          (\<exists>ob'. map_of (Deployments cl') (om_Namespace (d_ObjectMeta obj), om_Name (d_ObjectMeta obj)) = Some ob' \<and> (\<lambda>x y. \<not> needsDeploymentUpdate x y) ob' obj) \<and>
          Created res' = Created res @ [\<lparr> ri_Type = ''Deployment'', ri_Name = om_Name (d_ObjectMeta obj), ri_Namespace = om_Namespace (d_ObjectMeta obj),
                                           ri_WorkloadType = wt \<rparr>] \<and>
          Updated res' = Updated res) \<or>
         (e = None \<and> map_of (Deployments cl) (om_Namespace (d_ObjectMeta obj), om_Name (d_ObjectMeta obj)) \<noteq> None \<and>
          (\<exists>ob'. map_of (Deployments cl') (om_Namespace (d_ObjectMeta obj), om_Name (d_ObjectMeta obj)) = Some ob' \<and> (\<lambda>x y. \<not> needsDeploymentUpdate x y) ob' obj) \<and>
          Updated res' = Updated res @ [\<lparr> ri_Type = ''Deployment'', ri_Name = om_Name (d_ObjectMeta obj), ri_Namespace = om_Namespace (d_ObjectMeta obj),
                                           ri_WorkloadType = wt \<rparr>] \<and>
          Created res' = Created res)"
  using assms
  by (auto simp: reconcileDeployment_def Let_def Deployments_Get_def Deployments_Create_def
      Deployments_Update_def store_get_def store_create_def store_update_def
      update_conv' IsNotFound_def checkResourceVersion_def
      split: option.splits sum.splits if_splits)

lemma reconcileDeployment_fixpoint:
  assumes "flt VerbGet KDeployment (om_Namespace (d_ObjectMeta obj)) (om_Name (d_ObjectMeta obj)) = None"
    and "map_of (Deployments cl) (om_Namespace (d_ObjectMeta obj), om_Name (d_ObjectMeta obj)) = Some ob" and "(\<lambda>x y. \<not> needsDeploymentUpdate x y) ob obj"
  shows "reconcileDeployment flt cl obj wt res = (None, cl, res)"
  using assms
  by (simp add: reconcileDeployment_def Let_def Deployments_Get_def store_get_def)

lemma reconcileDeployment_get_fault:
  assumes "flt VerbGet KDeployment (om_Namespace (d_ObjectMeta obj)) (om_Name (d_ObjectMeta obj)) = Some err" and "err \<noteq> NotFound"
  shows "\<exists>msg. reconcileDeployment flt cl obj wt res = (Some (Wrapped msg (ApiErr err)), cl, res)"
  using assms
  by (simp add: reconcileDeployment_def Let_def Deployments_Get_def store_get_def IsNotFound_def)

lemma reconcileService_effect:
  assumes "reconcileService flt cl obj wt res = (e, cl', res')"
  shows "Deployments cl' = Deployments cl \<and> ConfigMaps cl' = ConfigMaps cl \<and> VirtualMachines cl' = VirtualMachines cl"
    and "Deleted res' = Deleted res \<and> Errors res' = Errors res"
    and "(\<forall>k'. k' \<noteq> (om_Namespace (s_ObjectMeta obj), om_Name (s_ObjectMeta obj)) \<longrightarrow>
               map_of (Services cl') k' = map_of (Services cl) k')"
    and "(distinct (map fst (Services cl)) \<longrightarrow> distinct (map fst (Services cl')))"
    and "((\<forall>k ob. map_of (Services cl) k = Some ob \<longrightarrow> (\<lambda>x. (om_Namespace (s_ObjectMeta x), om_Name (s_ObjectMeta x))) ob = k) \<longrightarrow>
          (\<forall>k ob. map_of (Services cl') k = Some ob \<longrightarrow> (\<lambda>x. (om_Namespace (s_ObjectMeta x), om_Name (s_ObjectMeta x))) ob = k))"
  using assms
  by (auto simp: reconcileService_def Let_def Services_Get_def Services_Create_def
      Services_Update_def store_get_def store_create_def store_update_def
      update_conv' distinct_update
      split: option.splits sum.splits if_splits)

lemma reconcileService_cases:
  assumes "reconcileService flt cl obj wt res = (e, cl', res')"
  shows "(e \<noteq> None \<and> cl' = cl \<and> res' = res \<and>
          (flt VerbGet KService (om_Namespace (s_ObjectMeta obj)) (om_Name (s_ObjectMeta obj)) \<noteq> None \<or>
           flt VerbCreate KService (om_Namespace (s_ObjectMeta obj)) (om_Name (s_ObjectMeta obj)) \<noteq> None \<or>
           flt VerbUpdate KService (om_Namespace (s_ObjectMeta obj)) (om_Name (s_ObjectMeta obj)) \<noteq> None)) \<or>
         (e = None \<and> cl' = cl \<and> res' = res \<and>
          (\<exists>ob. map_of (Services cl) (om_Namespace (s_ObjectMeta obj), om_Name (s_ObjectMeta obj)) = Some ob \<and> (\<lambda>x y. \<not> needsServiceUpdate x y) ob obj)) \<or>
         (e = None \<and> map_of (Services cl) (om_Namespace (s_ObjectMeta obj), om_Name (s_ObjectMeta obj)) = None \<and>
          (\<exists>ob'. map_of (Services cl') (om_Namespace (s_ObjectMeta obj), om_Name (s_ObjectMeta obj)) = Some ob' \<and> (\<lambda>x y. \<not> needsServiceUpdate x y) ob' obj) \<and>
          Created res' = Created res @ [\<lparr> ri_Type = ''Service'', ri_Name = om_Name (s_ObjectMeta obj), ri_Namespace = om_Namespace (s_ObjectMeta obj),
                                           ri_WorkloadType = wt \<rparr>] \<and>
          Updated res' = Updated res) \<or>
         (e = None \<and> map_of (Services cl) (om_Namespace (s_ObjectMeta obj), om_Name (s_ObjectMeta obj)) \<noteq> None \<and>
          (\<exists>ob'. map_of (Services cl') (om_Namespace (s_ObjectMeta obj), om_Name (s_ObjectMeta obj)) = Some ob' \<and> (\<lambda>x y. \<not> needsServiceUpdate x y) ob' obj) \<and>
          Updated res' = Updated res @ [\<lparr> ri_Type = ''Service'', ri_Name = om_Name (s_ObjectMeta obj), ri_Namespace = om_Namespace (s_ObjectMeta obj),
                                           ri_WorkloadType = wt \<rparr>] \<and>
          Created res' = Created res)"
  using assms
  by (auto simp: reconcileService_def Let_def Services_Get_def Services_Create_def
      Services_Update_def store_get_def store_create_def store_update_def
      update_conv' IsNotFound_def checkResourceVersion_def
      split: option.splits sum.splits if_splits)

lemma reconcileService_fixpoint:
  assumes "flt VerbGet KService (om_Namespace (s_ObjectMeta obj)) (om_Name (s_ObjectMeta obj)) = None"
    and "map_of (Services cl) (om_Namespace (s_ObjectMeta obj), om_Name (s_ObjectMeta obj)) = Some ob" and "(\<lambda>x y. \<not> needsServiceUpdate x y) ob obj"
  shows "reconcileService flt cl obj wt res = (None, cl, res)"
  using assms
  by (simp add: reconcileService_def Let_def Services_Get_def store_get_def)

lemma reconcileService_get_fault:
  assumes "flt VerbGet KService (om_Namespace (s_ObjectMeta obj)) (om_Name (s_ObjectMeta obj)) = Some err" and "err \<noteq> NotFound"
  shows "\<exists>msg. reconcileService flt cl obj wt res = (Some (Wrapped msg (ApiErr err)), cl, res)"
  using assms
  by (simp add: reconcileService_def Let_def Services_Get_def store_get_def IsNotFound_def)

lemma reconcileConfigMap_effect:
  assumes "reconcileConfigMap flt cl obj wt res = (e, cl', res')"
  shows "Deployments cl' = Deployments cl \<and> Services cl' = Services cl \<and> VirtualMachines cl' = VirtualMachines cl"
    and "Deleted res' = Deleted res \<and> Errors res' = Errors res"
    and "(\<forall>k'. k' \<noteq> (om_Namespace (cm_ObjectMeta obj), om_Name (cm_ObjectMeta obj)) \<longrightarrow>
               map_of (ConfigMaps cl') k' = map_of (ConfigMaps cl) k')"
    and "(distinct (map fst (ConfigMaps cl)) \<longrightarrow> distinct (map fst (ConfigMaps cl')))"
    and "((\<forall>k ob. map_of (ConfigMaps cl) k = Some ob \<longrightarrow> (\<lambda>x. (om_Namespace (cm_ObjectMeta x), om_Name (cm_ObjectMeta x))) ob = k) \<longrightarrow>
          (\<forall>k ob. map_of (ConfigMaps cl') k = Some ob \<longrightarrow> (\<lambda>x. (om_Namespace (cm_ObjectMeta x), om_Name (cm_ObjectMeta x))) ob = k))"
  using assms
  by (auto simp: reconcileConfigMap_def Let_def ConfigMaps_Get_def ConfigMaps_Create_def
      ConfigMaps_Update_def store_get_def store_create_def store_update_def
      update_conv' distinct_update
      split: option.splits sum.splits if_splits)

lemma reconcileConfigMap_cases:
  assumes "reconcileConfigMap flt cl obj wt res = (e, cl', res')"
  shows "(e \<noteq> None \<and> cl' = cl \<and> res' = res \<and>
          (flt VerbGet KConfigMap (om_Namespace (cm_ObjectMeta obj)) (om_Name (cm_ObjectMeta obj)) \<noteq> None \<or>
           flt VerbCreate KConfigMap (om_Namespace (cm_ObjectMeta obj)) (om_Name (cm_ObjectMeta obj)) \<noteq> None \<or>
           flt VerbUpdate KConfigMap (om_Namespace (cm_ObjectMeta obj)) (om_Name (cm_ObjectMeta obj)) \<noteq> None)) \<or>
         (e = None \<and> cl' = cl \<and> res' = res \<and>
          (\<exists>ob. map_of (ConfigMaps cl) (om_Namespace (cm_ObjectMeta obj), om_Name (cm_ObjectMeta obj)) = Some ob \<and> (\<lambda>x y. cm_Data x = cm_Data y) ob obj)) \<or>
         (e = None \<and> map_of (ConfigMaps cl) (om_Namespace (cm_ObjectMeta obj), om_Name (cm_ObjectMeta obj)) = None \<and>
          (\<exists>ob'. map_of (ConfigMaps cl') (om_Namespace (cm_ObjectMeta obj), om_Name (cm_ObjectMeta obj)) = Some ob' \<and> (\<lambda>x y. cm_Data x = cm_Data y) ob' obj) \<and>
          Created res' = Created res @ [\<lparr> ri_Type = ''ConfigMap'', ri_Name = om_Name (cm_ObjectMeta obj), ri_Namespace = om_Namespace (cm_ObjectMeta obj),
                                           ri_WorkloadType = wt \<rparr>] \<and>
          Updated res' = Updated res) \<or>
         (e = None \<and> map_of (ConfigMaps cl) (om_Namespace (cm_ObjectMeta obj), om_Name (cm_ObjectMeta obj)) \<noteq> None \<and>
          (\<exists>ob'. map_of (ConfigMaps cl') (om_Namespace (cm_ObjectMeta obj), om_Name (cm_ObjectMeta obj)) = Some ob' \<and> (\<lambda>x y. cm_Data x = cm_Data y) ob' obj) \<and>
          Updated res' = Updated res @ [\<lparr> ri_Type = ''ConfigMap'', ri_Name = om_Name (cm_ObjectMeta obj), ri_Namespace = om_Namespace (cm_ObjectMeta obj),
                                           ri_WorkloadType = wt \<rparr>] \<and>
          Created res' = Created res)"
  using assms
  by (auto simp: reconcileConfigMap_def Let_def ConfigMaps_Get_def ConfigMaps_Create_def
      ConfigMaps_Update_def store_get_def store_create_def store_update_def
      update_conv' IsNotFound_def checkResourceVersion_def
      split: option.splits sum.splits if_splits)

lemma reconcileConfigMap_fixpoint:
  assumes "flt VerbGet KConfigMap (om_Namespace (cm_ObjectMeta obj)) (om_Name (cm_ObjectMeta obj)) = None"
    and "map_of (ConfigMaps cl) (om_Namespace (cm_ObjectMeta obj), om_Name (cm_ObjectMeta obj)) = Some ob" and "(\<lambda>x y. cm_Data x = cm_Data y) ob obj"
  shows "reconcileConfigMap flt cl obj wt res = (None, cl, res)"
  using assms
  by (simp add: reconcileConfigMap_def Let_def ConfigMaps_Get_def store_get_def)

lemma reconcileConfigMap_get_fault:
  assumes "flt VerbGet KConfigMap (om_Namespace (cm_ObjectMeta obj)) (om_Name (cm_ObjectMeta obj)) = Some err" and "err \<noteq> NotFound"
  shows "\<exists>msg. reconcileConfigMap flt cl obj wt res = (Some (Wrapped msg (ApiErr err)), cl, res)"
  using assms
  by (simp add: reconcileConfigMap_def Let_def ConfigMaps_Get_def store_get_def IsNotFound_def)

lemma reconcileVirtualMachine_effect:
  assumes "reconcileVirtualMachine flt cl obj wt res = (e, cl', res')"
  shows "Deployments cl' = Deployments cl \<and> Services cl' = Services cl \<and> ConfigMaps cl' = ConfigMaps cl"
    and "Deleted res' = Deleted res \<and> Errors res' = Errors res"
    and "(\<forall>k'. k' \<noteq> (GetNamespace obj, GetName obj) \<longrightarrow>
               map_of (VirtualMachines cl') k' = map_of (VirtualMachines cl) k')"
    and "(distinct (map fst (VirtualMachines cl)) \<longrightarrow> distinct (map fst (VirtualMachines cl')))"
    and "((\<forall>k ob. map_of (VirtualMachines cl) k = Some ob \<longrightarrow> (\<lambda>x. (GetNamespace x, GetName x)) ob = k) \<longrightarrow>
          (\<forall>k ob. map_of (VirtualMachines cl') k = Some ob \<longrightarrow> (\<lambda>x. (GetNamespace x, GetName x)) ob = k))"
  using assms
  by (auto simp: reconcileVirtualMachine_def Let_def VirtualMachines_Get_def VirtualMachines_Create_def
      VirtualMachines_Update_def store_get_def store_create_def store_update_def
      update_conv' distinct_update
      split: option.splits sum.splits if_splits)

lemma reconcileVirtualMachine_cases:
  assumes "reconcileVirtualMachine flt cl obj wt res = (e, cl', res')"
  shows "(e \<noteq> None \<and> cl' = cl \<and> res' = res \<and>
          (flt VerbGet KVirtualMachine (GetNamespace obj) (GetName obj) \<noteq> None \<or>
           flt VerbCreate KVirtualMachine (GetNamespace obj) (GetName obj) \<noteq> None \<or>
           flt VerbUpdate KVirtualMachine (GetNamespace obj) (GetName obj) \<noteq> None)) \<or>
         (e = None \<and> cl' = cl \<and> res' = res \<and>
          (\<exists>ob. map_of (VirtualMachines cl) (GetNamespace obj, GetName obj) = Some ob \<and> (\<lambda>x y. NestedMap (u_Object x) [''spec''] = NestedMap (u_Object y) [''spec'']) ob obj)) \<or>
         (e = None \<and> map_of (VirtualMachines cl) (GetNamespace obj, GetName obj) = None \<and>
          (\<exists>ob'. map_of (VirtualMachines cl') (GetNamespace obj, GetName obj) = Some ob' \<and> (\<lambda>x y. NestedMap (u_Object x) [''spec''] = NestedMap (u_Object y) [''spec'']) ob' obj) \<and>
          Created res' = Created res @ [\<lparr> ri_Type = ''VirtualMachine'', ri_Name = GetName obj, ri_Namespace = GetNamespace obj,
                                           ri_WorkloadType = wt \<rparr>] \<and>
          Updated res' = Updated res) \<or>
         (e = None \<and> map_of (VirtualMachines cl) (GetNamespace obj, GetName obj) \<noteq> None \<and>
          (\<exists>ob'. map_of (VirtualMachines cl') (GetNamespace obj, GetName obj) = Some ob' \<and> (\<lambda>x y. NestedMap (u_Object x) [''spec''] = NestedMap (u_Object y) [''spec'']) ob' obj) \<and>
          Updated res' = Updated res @ [\<lparr> ri_Type = ''VirtualMachine'', ri_Name = GetName obj, ri_Namespace = GetNamespace obj,
                                           ri_WorkloadType = wt \<rparr>] \<and>
          Created res' = Created res)"
  using assms GetResourceVersion_SetResourceVersion
  by (auto simp: reconcileVirtualMachine_def Let_def VirtualMachines_Get_def VirtualMachines_Create_def
      VirtualMachines_Update_def store_get_def store_create_def store_update_def
      update_conv' IsNotFound_def checkResourceVersion_def
      split: option.splits sum.splits if_splits)

lemma reconcileVirtualMachine_fixpoint:
  assumes "flt VerbGet KVirtualMachine (GetNamespace obj) (GetName obj) = None"
    and "map_of (VirtualMachines cl) (GetNamespace obj, GetName obj) = Some ob" and "(\<lambda>x y. NestedMap (u_Object x) [''spec''] = NestedMap (u_Object y) [''spec'']) ob obj"
  shows "reconcileVirtualMachine flt cl obj wt res = (None, cl, res)"
  using assms
  by (simp add: reconcileVirtualMachine_def Let_def VirtualMachines_Get_def store_get_def)

lemma reconcileVirtualMachine_get_fault:
  assumes "flt VerbGet KVirtualMachine (GetNamespace obj) (GetName obj) = Some err" and "err \<noteq> NotFound"
  shows "\<exists>msg. reconcileVirtualMachine flt cl obj wt res = (Some (Wrapped msg (ApiErr err)), cl, res)"
  using assms
  by (simp add: reconcileVirtualMachine_def Let_def VirtualMachines_Get_def store_get_def IsNotFound_def)

lemma wf_cluster_iff:
  "wf_cluster cl \<longleftrightarrow>
     (distinct (map fst (Deployments cl)) \<and>
      (\<forall>k ob. map_of (Deployments cl) k = Some ob \<longrightarrow>
          (om_Namespace (d_ObjectMeta ob), om_Name (d_ObjectMeta ob)) = k)) \<and>
     (distinct (map fst (Services cl)) \<and>
      (\<forall>k ob. map_of (Services cl) k = Some ob \<longrightarrow>
          (om_Namespace (s_ObjectMeta ob), om_Name (s_ObjectMeta ob)) = k)) \<and>
     (distinct (map fst (ConfigMaps cl)) \<and>
      (\<forall>k ob. map_of (ConfigMaps cl) k = Some ob \<longrightarrow>
          (om_Namespace (cm_ObjectMeta ob), om_Name (cm_ObjectMeta ob)) = k))"
proof -
  have a: "\<And>s f. distinct (map fst s) \<Longrightarrow>
      list_all (\<lambda>((ns, name), ob). fst (f ob) = ns \<and> snd (f ob) = name) s \<longleftrightarrow>
      (\<forall>k ob. map_of s k = Some ob \<longrightarrow> f ob = k)"
    by (fastforce simp: list_all_iff dest: map_of_SomeD)
  show ?thesis
    unfolding wf_cluster_def
    using a [of "Deployments cl" "\<lambda>x. (om_Namespace (d_ObjectMeta x), om_Name (d_ObjectMeta x))"]
      a [of "Services cl" "\<lambda>x. (om_Namespace (s_ObjectMeta x), om_Name (s_ObjectMeta x))"]
      a [of "ConfigMaps cl" "\<lambda>x. (om_Namespace (cm_ObjectMeta x), om_Name (cm_ObjectMeta x))"]
    by auto
qed

lemma step_summary_Deployment:
  assumes tm: "type_matches r"
    and step: "reconcileResource flt cl r wt ns res = Some (e, cl', res')"
    and obj: "Object r = ObjDeployment d"
  shows "step_spec flt cl r wt res e cl' res'"
proof -
  have ty: "Type r = ''Deployment''" using tm obj by (simp add: type_matches_def)
  have run: "reconcileDeployment flt cl d wt res = (e, cl', res')"
    using step ty obj by (simp add: reconcileResource_def)
  note others = reconcileDeployment_effect(1) [OF run]
  note results = reconcileDeployment_effect(2) [OF run]
  note fr = reconcileDeployment_effect(3) [OF run]
  note dist = reconcileDeployment_effect(4) [OF run]
  note idents = reconcileDeployment_effect(5) [OF run]
  note cs = reconcileDeployment_cases [OF run]
  let ?id = "(KDeployment, om_Namespace (d_ObjectMeta d), om_Name (d_ObjectMeta d))"
  have frame: "\<forall>ident'. ident' \<noteq> ?id \<longrightarrow> cluster_lookup cl' ident' = cluster_lookup cl ident'"
  proof (intro allI impI)
    fix ident' :: "kind \<times> string \<times> string"
    assume ne: "ident' \<noteq> ?id"
    obtain k ns n where i: "ident' = (k, ns, n)" by (cases ident') auto
    show "cluster_lookup cl' ident' = cluster_lookup cl ident'"
      using others fr ne unfolding i by (cases k) simp_all
  qed
  have wf: "wf_cluster cl \<longrightarrow> wf_cluster cl'"
  proof
    assume w: "wf_cluster cl"
    have d1: "distinct (map fst (Deployments cl'))"
      using w dist unfolding wf_cluster_iff by blast
    have d2: "\<forall>k ob. map_of (Deployments cl') k = Some ob \<longrightarrow> (\<lambda>x. (om_Namespace (d_ObjectMeta x), om_Name (d_ObjectMeta x))) ob = k"
      using w idents unfolding wf_cluster_iff by blast
    show "wf_cluster cl'"
      unfolding wf_cluster_iff
      using w [unfolded wf_cluster_iff] d1 d2 others by (simp only: ) blast
  qed
  have info: "resource_info r wt = \<lparr> ri_Type = ''Deployment'', ri_Name = om_Name (d_ObjectMeta d),
      ri_Namespace = om_Namespace (d_ObjectMeta d), ri_WorkloadType = wt \<rparr>"
    using obj ty by (simp add: resource_info_def)
  have id: "object_ident (Object r) = Some ?id" using obj by simp
  have disj: "(e \<noteq> None \<and> cl' = cl \<and> res' = res \<and> \<not> fault_free flt (ObjDeployment d)) \<or>
         (e = None \<and> cl' = cl \<and> res' = res \<and>
          (\<exists>ob. cluster_lookup cl ?id = Some ob \<and> up_to_date ob (ObjDeployment d))) \<or>
         (e = None \<and> cluster_lookup cl ?id = None \<and>
          (\<exists>ob'. cluster_lookup cl' ?id = Some ob' \<and> up_to_date ob' (ObjDeployment d)) \<and>
          Created res' = Created res @ [resource_info r wt] \<and> Updated res' = Updated res) \<or>
         (e = None \<and> cluster_lookup cl ?id \<noteq> None \<and>
          (\<exists>ob'. cluster_lookup cl' ?id = Some ob' \<and> up_to_date ob' (ObjDeployment d)) \<and>
          Updated res' = Updated res @ [resource_info r wt] \<and> Created res' = Created res)"
    unfolding info
    using cs by (elim disjE conjE exE) (auto simp: fault_free_def)
  show ?thesis
    unfolding step_spec_def obj [symmetric]
    by (rule exI [of _ ?id]) (use id frame wf results disj [folded obj] in blast)
qed

lemma step_summary_Service:
  assumes tm: "type_matches r"
    and step: "reconcileResource flt cl r wt ns res = Some (e, cl', res')"
    and obj: "Object r = ObjService d"
  shows "step_spec flt cl r wt res e cl' res'"
proof -
  have ty: "Type r = ''Service''" using tm obj by (simp add: type_matches_def)
  have run: "reconcileService flt cl d wt res = (e, cl', res')"
    using step ty obj by (simp add: reconcileResource_def)
  note others = reconcileService_effect(1) [OF run]
  note results = reconcileService_effect(2) [OF run]
  note fr = reconcileService_effect(3) [OF run]
  note dist = reconcileService_effect(4) [OF run]
  note idents = reconcileService_effect(5) [OF run]
  note cs = reconcileService_cases [OF run]
  let ?id = "(KService, om_Namespace (s_ObjectMeta d), om_Name (s_ObjectMeta d))"
  have frame: "\<forall>ident'. ident' \<noteq> ?id \<longrightarrow> cluster_lookup cl' ident' = cluster_lookup cl ident'"
  proof (intro allI impI)
    fix ident' :: "kind \<times> string \<times> string"
    assume ne: "ident' \<noteq> ?id"
    obtain k ns n where i: "ident' = (k, ns, n)" by (cases ident') auto
    show "cluster_lookup cl' ident' = cluster_lookup cl ident'"
      using others fr ne unfolding i by (cases k) simp_all
  qed
  have wf: "wf_cluster cl \<longrightarrow> wf_cluster cl'"
  proof
    assume w: "wf_cluster cl"
    have d1: "distinct (map fst (Services cl'))"
      using w dist unfolding wf_cluster_iff by blast
    have d2: "\<forall>k ob. map_of (Services cl') k = Some ob \<longrightarrow> (\<lambda>x. (om_Namespace (s_ObjectMeta x), om_Name (s_ObjectMeta x))) ob = k"
      using w idents unfolding wf_cluster_iff by blast
    show "wf_cluster cl'"
      unfolding wf_cluster_iff
      using w [unfolded wf_cluster_iff] d1 d2 others by (simp only: ) blast
  qed
  have info: "resource_info r wt = \<lparr> ri_Type = ''Service'', ri_Name = om_Name (s_ObjectMeta d),
      ri_Namespace = om_Namespace (s_ObjectMeta d), ri_WorkloadType = wt \<rparr>"
    using obj ty by (simp add: resource_info_def)
  have id: "object_ident (Object r) = Some ?id" using obj by simp
  have disj: "(e \<noteq> None \<and> cl' = cl \<and> res' = res \<and> \<not> fault_free flt (ObjService d)) \<or>
         (e = None \<and> cl' = cl \<and> res' = res \<and>
          (\<exists>ob. cluster_lookup cl ?id = Some ob \<and> up_to_date ob (ObjService d))) \<or>
         (e = None \<and> cluster_lookup cl ?id = None \<and>
          (\<exists>ob'. cluster_lookup cl' ?id = Some ob' \<and> up_to_date ob' (ObjService d)) \<and>
          Created res' = Created res @ [resource_info r wt] \<and> Updated res' = Updated res) \<or>
         (e = None \<and> cluster_lookup cl ?id \<noteq> None \<and>
          (\<exists>ob'. cluster_lookup cl' ?id = Some ob' \<and> up_to_date ob' (ObjService d)) \<and>
          Updated res' = Updated res @ [resource_info r wt] \<and> Created res' = Created res)"
    unfolding info
    using cs by (elim disjE conjE exE) (auto simp: fault_free_def)
  show ?thesis
    unfolding step_spec_def obj [symmetric]
    by (rule exI [of _ ?id]) (use id frame wf results disj [folded obj] in blast)
qed

lemma step_summary_ConfigMap:
  assumes tm: "type_matches r"
    and step: "reconcileResource flt cl r wt ns res = Some (e, cl', res')"
    and obj: "Object r = ObjConfigMap d"
  shows "step_spec flt cl r wt res e cl' res'"
proof -
  have ty: "Type r = ''ConfigMap''" using tm obj by (simp add: type_matches_def)
  have run: "reconcileConfigMap flt cl d wt res = (e, cl', res')"
    using step ty obj by (simp add: reconcileResource_def)
  note others = reconcileConfigMap_effect(1) [OF run]
  note results = reconcileConfigMap_effect(2) [OF run]
  note fr = reconcileConfigMap_effect(3) [OF run]
  note dist = reconcileConfigMap_effect(4) [OF run]
  note idents = reconcileConfigMap_effect(5) [OF run]
  note cs = reconcileConfigMap_cases [OF run]
  let ?id = "(KConfigMap, om_Namespace (cm_ObjectMeta d), om_Name (cm_ObjectMeta d))"
  have frame: "\<forall>ident'. ident' \<noteq> ?id \<longrightarrow> cluster_lookup cl' ident' = cluster_lookup cl ident'"
  proof (intro allI impI)
    fix ident' :: "kind \<times> string \<times> string"
    assume ne: "ident' \<noteq> ?id"
    obtain k ns n where i: "ident' = (k, ns, n)" by (cases ident') auto
    show "cluster_lookup cl' ident' = cluster_lookup cl ident'"
      using others fr ne unfolding i by (cases k) simp_all
  qed
  have wf: "wf_cluster cl \<longrightarrow> wf_cluster cl'"
  proof
    assume w: "wf_cluster cl"
    have d1: "distinct (map fst (ConfigMaps cl'))"
      using w dist unfolding wf_cluster_iff by blast
    have d2: "\<forall>k ob. map_of (ConfigMaps cl') k = Some ob \<longrightarrow> (\<lambda>x. (om_Namespace (cm_ObjectMeta x), om_Name (cm_ObjectMeta x))) ob = k"
      using w idents unfolding wf_cluster_iff by blast
    show "wf_cluster cl'"
      unfolding wf_cluster_iff
      using w [unfolded wf_cluster_iff] d1 d2 others by (simp only: ) blast
  qed
  have info: "resource_info r wt = \<lparr> ri_Type = ''ConfigMap'', ri_Name = om_Name (cm_ObjectMeta d),
      ri_Namespace = om_Namespace (cm_ObjectMeta d), ri_WorkloadType = wt \<rparr>"
    using obj ty by (simp add: resource_info_def)
  have id: "object_ident (Object r) = Some ?id" using obj by simp
  have disj: "(e \<noteq> None \<and> cl' = cl \<and> res' = res \<and> \<not> fault_free flt (ObjConfigMap d)) \<or>
         (e = None \<and> cl' = cl \<and> res' = res \<and>
          (\<exists>ob. cluster_lookup cl ?id = Some ob \<and> up_to_date ob (ObjConfigMap d))) \<or>
         (e = None \<and> cluster_lookup cl ?id = None \<and>
          (\<exists>ob'. cluster_lookup cl' ?id = Some ob' \<and> up_to_date ob' (ObjConfigMap d)) \<and>
          Created res' = Created res @ [resource_info r wt] \<and> Updated res' = Updated res) \<or>
         (e = None \<and> cluster_lookup cl ?id \<noteq> None \<and>
          (\<exists>ob'. cluster_lookup cl' ?id = Some ob' \<and> up_to_date ob' (ObjConfigMap d)) \<and>
          Updated res' = Updated res @ [resource_info r wt] \<and> Created res' = Created res)"
    unfolding info
    using cs by (elim disjE conjE exE) (auto simp: fault_free_def)
  show ?thesis
    unfolding step_spec_def obj [symmetric]
    by (rule exI [of _ ?id]) (use id frame wf results disj [folded obj] in blast)
qed

lemma step_summary_VirtualMachine:
  assumes tm: "type_matches r"
    and step: "reconcileResource flt cl r wt ns res = Some (e, cl', res')"
    and obj: "Object r = ObjUnstructured d"
  shows "step_spec flt cl r wt res e cl' res'"
proof -
  have ty: "Type r = ''VirtualMachine''" using tm obj by (simp add: type_matches_def)
  have run: "reconcileVirtualMachine flt cl d wt res = (e, cl', res')"
    using step ty obj by (simp add: reconcileResource_def)
  note others = reconcileVirtualMachine_effect(1) [OF run]
  note results = reconcileVirtualMachine_effect(2) [OF run]
  note fr = reconcileVirtualMachine_effect(3) [OF run]
  note dist = reconcileVirtualMachine_effect(4) [OF run]
  note idents = reconcileVirtualMachine_effect(5) [OF run]
  note cs = reconcileVirtualMachine_cases [OF run]
  let ?id = "(KVirtualMachine, GetNamespace d, GetName d)"
  have frame: "\<forall>ident'. ident' \<noteq> ?id \<longrightarrow> cluster_lookup cl' ident' = cluster_lookup cl ident'"
  proof (intro allI impI)
    fix ident' :: "kind \<times> string \<times> string"
    assume ne: "ident' \<noteq> ?id"
    obtain k ns n where i: "ident' = (k, ns, n)" by (cases ident') auto
    show "cluster_lookup cl' ident' = cluster_lookup cl ident'"
      using others fr ne unfolding i by (cases k) simp_all
  qed
  have wf: "wf_cluster cl \<longrightarrow> wf_cluster cl'"
    unfolding wf_cluster_iff using others by simp
  have info: "resource_info r wt = \<lparr> ri_Type = ''VirtualMachine'', ri_Name = GetName d,
      ri_Namespace = GetNamespace d, ri_WorkloadType = wt \<rparr>"
    using obj ty by (simp add: resource_info_def)
  have id: "object_ident (Object r) = Some ?id" using obj by simp
  have disj: "(e \<noteq> None \<and> cl' = cl \<and> res' = res \<and> \<not> fault_free flt (ObjUnstructured d)) \<or>
         (e = None \<and> cl' = cl \<and> res' = res \<and>
          (\<exists>ob. cluster_lookup cl ?id = Some ob \<and> up_to_date ob (ObjUnstructured d))) \<or>
         (e = None \<and> cluster_lookup cl ?id = None \<and>
          (\<exists>ob'. cluster_lookup cl' ?id = Some ob' \<and> up_to_date ob' (ObjUnstructured d)) \<and>
          Created res' = Created res @ [resource_info r wt] \<and> Updated res' = Updated res) \<or>
         (e = None \<and> cluster_lookup cl ?id \<noteq> None \<and>
          (\<exists>ob'. cluster_lookup cl' ?id = Some ob' \<and> up_to_date ob' (ObjUnstructured d)) \<and>
          Updated res' = Updated res @ [resource_info r wt] \<and> Created res' = Created res)"
    unfolding info
    using cs by (elim disjE conjE exE) (auto simp: fault_free_def)
  show ?thesis
    unfolding step_spec_def obj [symmetric]
    by (rule exI [of _ ?id]) (use id frame wf results disj [folded obj] in blast)
qed

lemma step_summary:
  assumes "type_matches r"
    and "reconcileResource flt cl r wt ns res = Some (e, cl', res')"
  shows "step_spec flt cl r wt res e cl' res'"
proof (cases "Object r")
  case (ObjDeployment d)
  then show ?thesis using assms by (rule_tac step_summary_Deployment)
next
  case (ObjService d)
  then show ?thesis using assms by (rule_tac step_summary_Service)
next
  case (ObjConfigMap d)
  then show ?thesis using assms by (rule_tac step_summary_ConfigMap)
next
  case (ObjUnstructured d)
  then show ?thesis using assms by (rule_tac step_summary_VirtualMachine)
next
  case ObjOther
  then show ?thesis using assms by (simp add: type_matches_def)
qed

lemma step_fixpoint:
  assumes "type_matches r"
    and "object_ident (Object r) = Some (k, ns', n)"
    and "flt VerbGet k ns' n = None"
    and "cluster_lookup cl (k, ns', n) = Some ob"
    and "up_to_date ob (Object r)"
  shows "reconcileResource flt cl r wt ns res = Some (None, cl, res)"
proof (cases "Object r")
  case (ObjDeployment d)
  then show ?thesis
    using assms reconcileDeployment_fixpoint [of flt d cl _ wt res]
    by (auto simp: type_matches_def reconcileResource_def)
next
  case (ObjService d)
  then show ?thesis
    using assms reconcileService_fixpoint [of flt d cl _ wt res]
    by (auto simp: type_matches_def reconcileResource_def)
next
  case (ObjConfigMap d)
  then show ?thesis
    using assms reconcileConfigMap_fixpoint [of flt d cl _ wt res]
    by (auto simp: type_matches_def reconcileResource_def)
next
  case (ObjUnstructured d)
  then show ?thesis
    using assms reconcileVirtualMachine_fixpoint [of flt d cl _ wt res]
    by (auto simp: type_matches_def reconcileResource_def)
next
  case ObjOther
  then show ?thesis using assms by (simp add: type_matches_def)
qed

lemma step_get_fault:
  assumes "type_matches r"
    and "object_ident (Object r) = Some (k, ns', n)"
    and "flt VerbGet k ns' n = Some err" and "err \<noteq> NotFound"
  shows "\<exists>msg. reconcileResource flt cl r wt ns res = Some (Some (Wrapped msg (ApiErr err)), cl, res)"
proof (cases "Object r")
  case (ObjDeployment d)
  then show ?thesis
    using assms reconcileDeployment_get_fault [of flt d err cl wt res]
    by (auto simp: type_matches_def reconcileResource_def)
next
  case (ObjService d)
  then show ?thesis
    using assms reconcileService_get_fault [of flt d err cl wt res]
    by (auto simp: type_matches_def reconcileResource_def)
next
  case (ObjConfigMap d)
  then show ?thesis
    using assms reconcileConfigMap_get_fault [of flt d err cl wt res]
    by (auto simp: type_matches_def reconcileResource_def)
next
  case (ObjUnstructured d)
  then show ?thesis
    using assms reconcileVirtualMachine_get_fault [of flt d err cl wt res]
    by (auto simp: type_matches_def reconcileResource_def)
next
  case ObjOther
  then show ?thesis using assms by (simp add: type_matches_def)
qed

end
